theory Spec2Isabelle
  imports Complex_Main "HOL-Library.Multiset"
begin

section \<open>Data model (types.ts)\<close>

text \<open>
  JavaScript numbers are modelled exactly: colour channels, counts and indices are integers
  or naturals, tolerances, distances and coordinates are reals. IEEE rounding and the
  infinities are outside the model. Every comparison the clustering code makes is between
  the square root of an integer and a product \<open>tolerance * 2.55\<close>.
\<close>

record RGBColor =
  r :: int
  g :: int
  b :: int

text \<open>
  An \<open>SVGElement\<close> is a DOM node. The code reads and writes its attributes, clones it and
  serialises it; the model keeps the tag name, the attributes in document order and the
  children as opaque markup. A clone is a copy of the value.
\<close>

record SVGElement =
  tagName :: string
  attributes :: "(string \<times> string) list"
  innerHTML :: string

record SVGPathData =
  color :: RGBColor
  element :: SVGElement

text \<open>
  \<open>SVGColorGroup | RasterColorGroup\<close>, the union the application state holds. The field
  \<open>representativeColor\<close> is common to both variants.
\<close>

datatype ColorGroup =
    SVGColorGroup (representativeColor: RGBColor) (elements: "SVGElement list")
  | RasterColorGroup (representativeColor: RGBColor) (memberColors: "RGBColor list")
      (totalCount: nat)

section \<open>colorUtils.ts\<close>

definition colorDistance :: "RGBColor \<Rightarrow> RGBColor \<Rightarrow> real" where
  "colorDistance color1 color2 =
     (let dr = r color1 - r color2;
          dg = g color1 - g color2;
          db = b color1 - b color2
      in sqrt (of_int (dr * dr + dg * dg + db * db)))"

section \<open>processSVG: first-fit clustering of the collected paths\<close>

text \<open>
  The inner \<open>for (const group of groups)\<close> loop of \<open>processSVG\<close>: the path joins the first
  group whose representative colour is closer than \<open>maxDist\<close>; the result is \<open>None\<close> when
  the loop ends with \<open>placed\<close> still false.
\<close>

fun placePath :: "real \<Rightarrow> SVGPathData \<Rightarrow> ColorGroup list \<Rightarrow> ColorGroup list option" where
  "placePath maxDist path [] = None"
| "placePath maxDist path (grp # groups) =
     (if colorDistance (color path) (representativeColor grp) < maxDist
      then Some (SVGColorGroup (representativeColor grp) (elements grp @ [element path]) # groups)
      else map_option ((#) grp) (placePath maxDist path groups))"

text \<open>The body of \<open>paths.forEach\<close>: place the path, or open a new group at the end.\<close>

definition addPath :: "real \<Rightarrow> ColorGroup list \<Rightarrow> SVGPathData \<Rightarrow> ColorGroup list" where
  "addPath maxDist groups path =
     (case placePath maxDist path groups of
        Some groups' \<Rightarrow> groups'
      | None \<Rightarrow> groups @ [SVGColorGroup (color path) [element path]])"

text \<open>Lines 71 to 89 of \<open>processSVG\<close>: \<open>maxDist = tolerance * 2.55\<close>, then the loop over the paths.\<close>

definition clusterPaths :: "real \<Rightarrow> SVGPathData list \<Rightarrow> ColorGroup list" where
  "clusterPaths tolerance paths = foldl (addPath (tolerance * 2.55)) [] paths"

section \<open>processRaster\<close>

text \<open>
  \<open>ImageData.data\<close> is a \<open>Uint8ClampedArray\<close> of \<open>4 * width * height\<close> bytes, four per
  pixel. The model keeps one record per pixel: the pixel at list position \<open>k\<close> holds
  \<open>data[4k]\<close> to \<open>data[4k + 3]\<close>, and the loop index \<open>i\<close> of the source is \<open>4 * k\<close>.
\<close>

record Pixel =
  red :: int
  green :: int
  blue :: int
  alpha :: int

text \<open>\<open>{ r: data[i], g: data[i + 1], b: data[i + 2] }\<close>\<close>

definition rgbOfPixel :: "Pixel \<Rightarrow> RGBColor" where
  "rgbOfPixel p = \<lparr>r = red p, g = green p, b = blue p\<rparr>"

text \<open>
  \<open>colorMap\<close> is an object keyed by the string \<open>"r,g,b"\<close>; \<open>Object.values\<close> lists its
  entries in insertion order. The model is an association list in insertion order, keyed
  by the colour itself (the key string determines the three channels).
\<close>

type_synonym ColorCount = "RGBColor \<times> nat"

fun countColor :: "RGBColor \<Rightarrow> ColorCount list \<Rightarrow> ColorCount list" where
  "countColor c [] = [(c, 1)]"
| "countColor c (e # colorMap) =
     (if fst e = c then (fst e, snd e + 1) # colorMap else e # countColor c colorMap)"

text \<open>The body of the sampling loop: pixels with \<open>alpha < 128\<close> are skipped.\<close>

definition samplePixel :: "Pixel \<Rightarrow> ColorCount list \<Rightarrow> ColorCount list" where
  "samplePixel p colorMap =
     (if alpha p < 128 then colorMap
      else countColor (rgbOfPixel p) colorMap)"

text \<open>\<open>Math.max(1, Math.floor(Math.sqrt(data.length / 4) / 1000))\<close>\<close>

definition sampleRate :: "Pixel list \<Rightarrow> nat" where
  "sampleRate data = max 1 (nat \<lfloor>sqrt (real (length data)) / 1000\<rfloor>)"

text \<open>\<open>for (let i = 0; i < data.length; i += 4 * sampleRate)\<close>, with \<open>i = 4 * k\<close>.\<close>

function sampleLoop :: "Pixel list \<Rightarrow> nat \<Rightarrow> ColorCount list \<Rightarrow> ColorCount list" where
  "sampleLoop data k colorMap =
     (if k < length data
      then sampleLoop data (k + sampleRate data) (samplePixel (data ! k) colorMap)
      else colorMap)"
  by pat_completeness auto
termination
  by (relation "measure (\<lambda>(data, k, colorMap). length data - k)") (auto simp: sampleRate_def)

declare sampleLoop.simps [simp del]

text \<open>
  \<open>Object.values(colorMap).sort((a, b) => b.count - a.count)\<close>. The sort of JavaScript
  arrays is stable, as is the insertion sort \<open>sort_key\<close>.
\<close>

definition sortedColors :: "ColorCount list \<Rightarrow> ColorCount list" where
  "sortedColors colorMap = sort_key (\<lambda>e. - int (snd e)) colorMap"

fun placeColor :: "real \<Rightarrow> ColorCount \<Rightarrow> ColorGroup list \<Rightarrow> ColorGroup list option" where
  "placeColor maxDist colorData [] = None"
| "placeColor maxDist colorData (grp # groups) =
     (if colorDistance (fst colorData) (representativeColor grp) < maxDist
      then Some (RasterColorGroup (representativeColor grp)
                   (memberColors grp @ [fst colorData]) (totalCount grp + snd colorData) # groups)
      else map_option ((#) grp) (placeColor maxDist colorData groups))"

definition addColor :: "real \<Rightarrow> ColorGroup list \<Rightarrow> ColorCount \<Rightarrow> ColorGroup list" where
  "addColor maxDist groups colorData =
     (case placeColor maxDist colorData groups of
        Some groups' \<Rightarrow> groups'
      | None \<Rightarrow> groups @ [RasterColorGroup (fst colorData) [fst colorData] (snd colorData)])"

definition clusterColors :: "real \<Rightarrow> ColorCount list \<Rightarrow> ColorGroup list" where
  "clusterColors tolerance colors = foldl (addColor (tolerance * 2.55)) [] colors"

text \<open>The groups of \<open>processRaster\<close> before the final sort (lines 114 to 151).\<close>

definition rasterGroups :: "Pixel list \<Rightarrow> real \<Rightarrow> ColorGroup list" where
  "rasterGroups data tolerance = clusterColors tolerance (sortedColors (sampleLoop data 0 []))"

text \<open>
  The \<open>groups\<close> field of the result of \<open>processRaster\<close>, from the decoded pixel buffer:
  \<open>groups.sort((a, b) => b.totalCount - a.totalCount)\<close>.
\<close>

definition processRaster :: "Pixel list \<Rightarrow> real \<Rightarrow> ColorGroup list" where
  "processRaster data tolerance =
     sort_key (\<lambda>grp. - int (totalCount grp)) (rasterGroups data tolerance)"

section \<open>Strings\<close>

definition isDigit :: "char \<Rightarrow> bool" where
  "isDigit c \<longleftrightarrow> c \<in> set ''0123456789''"

definition digitValue :: "char \<Rightarrow> int" where
  "digitValue c = int (of_char c) - 48"

text \<open>\<open>parseInt(s, 10)\<close> on a string of decimal digits.\<close>

definition parseInt10 :: "string \<Rightarrow> int" where
  "parseInt10 s = foldl (\<lambda>acc c. 10 * acc + digitValue c) 0 s"

text \<open>The character class \<open>[a-f\d]\<close> under the flag \<open>i\<close>.\<close>

definition isHexDigit :: "char \<Rightarrow> bool" where
  "isHexDigit c \<longleftrightarrow> c \<in> set ''0123456789abcdefABCDEF''"

definition hexDigitValue :: "char \<Rightarrow> int" where
  "hexDigitValue c =
     (if isDigit c then int (of_char c) - 48
      else if c \<in> set ''abcdef'' then int (of_char c) - 87
      else int (of_char c) - 55)"

text \<open>\<open>parseInt(s, 16)\<close> on a string of hexadecimal digits.\<close>

definition parseInt16 :: "string \<Rightarrow> int" where
  "parseInt16 s = foldl (\<lambda>acc c. 16 * acc + hexDigitValue c) 0 s"

definition toLowerChar :: "char \<Rightarrow> char" where
  "toLowerChar c =
     (case map_of (zip ''ABCDEFGHIJKLMNOPQRSTUVWXYZ'' ''abcdefghijklmnopqrstuvwxyz'') c of
        None \<Rightarrow> c
      | Some l \<Rightarrow> l)"

definition toLowerCase :: "string \<Rightarrow> string" where
  "toLowerCase s = map toLowerChar s"

definition startsWith :: "string \<Rightarrow> string \<Rightarrow> bool" where
  "startsWith s p \<longleftrightarrow> take (length p) s = p"

text \<open>\<open>s.match(/(\d+)/g)\<close>: the maximal runs of digits, left to right; \<open>[]\<close> stands for \<open>null\<close>.\<close>

function digitRuns :: "string \<Rightarrow> string list" where
  "digitRuns s =
     (case dropWhile (\<lambda>c. \<not> isDigit c) s of
        [] \<Rightarrow> []
      | c # rest \<Rightarrow> takeWhile isDigit (c # rest) # digitRuns (dropWhile isDigit rest))"
  by pat_completeness auto
termination
proof (relation "measure length")
  fix s :: string and c rest
  assume "dropWhile (\<lambda>c. \<not> isDigit c) s = c # rest"
  then have "length rest < length s"
    using length_dropWhile_le [of "\<lambda>c. \<not> isDigit c" s] by simp
  moreover have "length (dropWhile isDigit rest) \<le> length rest"
    by (rule length_dropWhile_le)
  ultimately show "(dropWhile isDigit rest, s) \<in> measure length" by simp
qed simp

declare digitRuns.simps [simp del]

section \<open>colorUtils.ts: parsing colours\<close>

text \<open>
  \<open>/^#?([a-f\d]{2})([a-f\d]{2})([a-f\d]{2})$/i\<close>: an optional \<open>#\<close>, then exactly six
  hexadecimal digits, and nothing else.
\<close>

definition hexToRgb :: "string \<Rightarrow> RGBColor option" where
  "hexToRgb hex =
     (let digits = (if startsWith hex ''#'' then drop 1 hex else hex)
      in if length digits = 6 \<and> list_all isHexDigit digits
         then Some \<lparr>r = parseInt16 (take 2 digits),
                     g = parseInt16 (take 2 (drop 2 digits)),
                     b = parseInt16 (take 2 (drop 4 digits))\<rparr>
         else None)"

text \<open>
  \<open>parseColorString\<close>. The fallback for named colours assigns the string to the \<open>color\<close>
  of a temporary element and reads the computed colour back; that round trip through the
  browser is the parameter \<open>computedColor\<close>. The function then calls itself on the
  browser's answer, and nothing in the code bounds that recursion: the model is a partial
  function, \<open>None\<close> when the call does not return, \<open>Some None\<close> for \<open>null\<close>.
\<close>

partial_function (option) parseColorString ::
  "(string \<Rightarrow> string) \<Rightarrow> string \<Rightarrow> RGBColor option option" where
  "parseColorString computedColor colorStr =
     (if colorStr = [] \<or> toLowerCase colorStr = ''none'' then Some None
      else if startsWith colorStr ''#'' then Some (hexToRgb colorStr)
      else if startsWith colorStr ''rgb'' \<and> 3 \<le> length (digitRuns colorStr)
      then Some (Some \<lparr>r = parseInt10 (digitRuns colorStr ! 0),
                        g = parseInt10 (digitRuns colorStr ! 1),
                        b = parseInt10 (digitRuns colorStr ! 2)\<rparr>)
      else parseColorString computedColor (computedColor colorStr))"

section \<open>The host environment\<close>

text \<open>
  What the code asks of the JavaScript engine and the browser is a parameter of the model:
  \<^item> \<open>parseFloat\<close>, with \<open>None\<close> for \<open>NaN\<close>;
  \<^item> \<open>numberToString\<close>, the conversion of a number to a string that template literals and
    \<open>Array.join\<close> apply;
  \<^item> \<open>outerHTML\<close>, the serialisation of a node;
  \<^item> \<open>computedColor\<close>, the computed \<open>color\<close> of a temporary element whose \<open>style.color\<close> was
    set to the given string (the fallback of \<open>parseColorString\<close>).
\<close>

record Host =
  parseFloat :: "string \<Rightarrow> real option"
  numberToString :: "real \<Rightarrow> string"
  outerHTML :: "SVGElement \<Rightarrow> string"
  computedColor :: "string \<Rightarrow> string"

section \<open>DOM attributes\<close>

definition getAttribute :: "string \<Rightarrow> SVGElement \<Rightarrow> string option" where
  "getAttribute name el = map_of (attributes el) name"

definition setAttribute :: "string \<Rightarrow> string \<Rightarrow> SVGElement \<Rightarrow> SVGElement" where
  "setAttribute name v el =
     (if name \<in> fst ` set (attributes el)
      then el\<lparr>attributes := map (\<lambda>a. if fst a = name then (name, v) else a) (attributes el)\<rparr>
      else el\<lparr>attributes := attributes el @ [(name, v)]\<rparr>)"

definition removeAttribute :: "string \<Rightarrow> SVGElement \<Rightarrow> SVGElement" where
  "removeAttribute name el = el\<lparr>attributes := filter (\<lambda>a. fst a \<noteq> name) (attributes el)\<rparr>"

section \<open>processSVG: collecting the paths\<close>

text \<open>
  The strings \<open>window.getComputedStyle(el)\<close> reports for an element. \<open>processSVG\<close> is
  modelled from the list that \<open>querySelectorAll\<close> returns, each element with its computed
  style; parsing the markup and computing the dimensions are left out.
\<close>

record CSSStyle =
  fill :: string
  fillOpacity :: string

text \<open>
  The body of \<open>elements.forEach\<close> after \<open>parseColorString(style.fill)\<close> has returned
  \<open>parsed\<close>: the paths this element adds to \<open>paths\<close> (one or none).
\<close>

definition ingestElement :: "Host \<Rightarrow> SVGElement \<times> CSSStyle \<Rightarrow> RGBColor option \<Rightarrow> SVGPathData list" where
  "ingestElement host el parsed =
     (let isWhite = (parsed = Some \<lparr>r = 255, g = 255, b = 255\<rparr>);
          fillColor = (if isWhite then Some \<lparr>r = 247, g = 247, b = 247\<rparr> else parsed);
          opacity = (case parseFloat host (fillOpacity (snd el)) of None \<Rightarrow> 1 | Some v \<Rightarrow> v)
      in case fillColor of
           None \<Rightarrow> []
         | Some c \<Rightarrow>
             if opacity > 0
             then [\<lparr>color = c,
                    element = setAttribute ''stroke'' ''none''
                      (if isWhite then setAttribute ''fill'' ''#F7F7F7'' (fst el) else fst el)\<rparr>]
             else [])"

fun collectPaths :: "Host \<Rightarrow> (SVGElement \<times> CSSStyle) list \<Rightarrow> SVGPathData list option" where
  "collectPaths host [] = Some []"
| "collectPaths host (el # els) =
     (case parseColorString (computedColor host) (fill (snd el)) of
        None \<Rightarrow> None
      | Some parsed \<Rightarrow> map_option ((@) (ingestElement host el parsed)) (collectPaths host els))"

text \<open>The \<open>groups\<close> field of the result of \<open>processSVG\<close>; \<open>None\<close> when a colour lookup does not return.\<close>

definition processSVG :: "Host \<Rightarrow> (SVGElement \<times> CSSStyle) list \<Rightarrow> real \<Rightarrow> ColorGroup list option" where
  "processSVG host els tolerance = map_option (clusterPaths tolerance) (collectPaths host els)"

section \<open>App.tsx: the edit state and its handlers\<close>

record DeletedGroup =
  group :: ColorGroup
  originalIndex :: nat

text \<open>The fields of \<open>AppState\<close> that the layer-edit handlers read or write.\<close>

record AppState =
  colorGroups :: "ColorGroup list"
  isSvgSource :: bool
  deletedGroups :: "DeletedGroup list"
  reorderHistory :: "ColorGroup list list"
  selectedGroupIndices :: "nat list"
  mergeHistory :: "ColorGroup list list"

text \<open>\<open>xs.filter((_, index) => keep(index))\<close>\<close>

definition filterByIndex :: "(nat \<Rightarrow> bool) \<Rightarrow> 'a list \<Rightarrow> 'a list" where
  "filterByIndex keep xs = map snd (filter (\<lambda>e. keep (fst e)) (enumerate 0 xs))"

text \<open>\<open>xs.splice(start, 0, item)\<close>, on a copy: a start beyond the end appends.\<close>

definition spliceInsert :: "nat \<Rightarrow> 'a \<Rightarrow> 'a list \<Rightarrow> 'a list" where
  "spliceInsert start item xs = take start xs @ item # drop start xs"

text \<open>
  \<open>handleDeleteGroup\<close> is bound to the card of a group, so its index is one of the list. For
  any other index JavaScript would record \<open>undefined\<close> as the deleted group, a value the
  declared type of the state does not have: the model returns \<open>None\<close> there.
\<close>

definition handleDeleteGroup :: "nat \<Rightarrow> AppState \<Rightarrow> AppState option" where
  "handleDeleteGroup indexToDelete s =
     (if indexToDelete < length (colorGroups s)
      then let groupToDelete = colorGroups s ! indexToDelete;
               newColorGroups = filterByIndex (\<lambda>index. index \<noteq> indexToDelete) (colorGroups s)
           in Some (s\<lparr>colorGroups := newColorGroups,
                      deletedGroups := deletedGroups s @
                        [\<lparr>group = groupToDelete, originalIndex = indexToDelete\<rparr>],
                      selectedGroupIndices := []\<rparr>)
      else None)"

definition handleUndoDelete :: "AppState \<Rightarrow> AppState" where
  "handleUndoDelete s =
     (if deletedGroups s = [] then s
      else let newDeletedGroups = butlast (deletedGroups s);
               lastDeleted = last (deletedGroups s);
               insertAt = min (originalIndex lastDeleted) (length (colorGroups s));
               newColorGroups = spliceInsert insertAt (group lastDeleted) (colorGroups s)
           in s\<lparr>colorGroups := newColorGroups, deletedGroups := newDeletedGroups\<rparr>)"

definition handleUndoReorder :: "AppState \<Rightarrow> AppState" where
  "handleUndoReorder s =
     (if reorderHistory s = [] then s
      else s\<lparr>colorGroups := last (reorderHistory s), reorderHistory := butlast (reorderHistory s)\<rparr>)"

text \<open>
  \<open>handleDrop\<close>, with the value of the ref \<open>draggedItem\<close> as a parameter (\<open>None\<close> for \<open>null\<close>).
  The dragged index is the index of a card; as for \<open>handleDeleteGroup\<close>, the model returns
  \<open>None\<close> for an index outside the list.
\<close>

definition handleDrop :: "nat option \<Rightarrow> nat \<Rightarrow> AppState \<Rightarrow> AppState option" where
  "handleDrop draggedItem dropIndex s =
     (case draggedItem of
        None \<Rightarrow> Some s
      | Some dragged \<Rightarrow>
          if dragged = dropIndex then Some s
          else if dragged < length (colorGroups s)
          then let draggedGroup = colorGroups s ! dragged;
                   newColorGroups = spliceInsert dropIndex draggedGroup
                     (take dragged (colorGroups s) @ drop (Suc dragged) (colorGroups s))
               in Some (s\<lparr>colorGroups := newColorGroups,
                          reorderHistory := reorderHistory s @ [colorGroups s],
                          selectedGroupIndices := []\<rparr>)
          else None)"

definition handleSelectGroup :: "nat \<Rightarrow> AppState \<Rightarrow> AppState" where
  "handleSelectGroup indexToToggle s =
     (if indexToToggle \<in> set (selectedGroupIndices s)
      then s\<lparr>selectedGroupIndices := remove1 indexToToggle (selectedGroupIndices s)\<rparr>
      else s\<lparr>selectedGroupIndices := selectedGroupIndices s @ [indexToToggle]\<rparr>)"

text \<open>
  \<open>handleMergeGroups\<close>. A selected index outside the list makes \<open>colorGroups[i]\<close>
  \<open>undefined\<close>, and reading its elements or member colours throws a \<open>TypeError\<close>; so does
  reading \<open>elements.length\<close> of a raster group in the comparator. The casts are unchecked:
  the raster branch applied to a vector group throws nothing and stores \<open>undefined\<close> and
  \<open>NaN\<close>, which the state type does not have (\<open>IllTypedState\<close>).
\<close>

datatype HandlerError = TypeError | IllTypedState

definition isSVGGroup :: "ColorGroup \<Rightarrow> bool" where
  "isSVGGroup grp = (case grp of SVGColorGroup _ _ \<Rightarrow> True | RasterColorGroup _ _ _ \<Rightarrow> False)"

text \<open>
  The state \<open>handleMergeGroups\<close> sets once \<open>newMergedGroup\<close> is built: the selected groups
  are removed, the merged group is inserted at \<open>Math.min(...selectedGroupIndices)\<close>, the
  previous list is pushed on \<open>mergeHistory\<close>, and the selection and the two other
  histories are emptied.
\<close>

definition mergeInto :: "ColorGroup \<Rightarrow> AppState \<Rightarrow> AppState" where
  "mergeInto newMergedGroup s =
     (let newColorGroups = filterByIndex (\<lambda>index. index \<notin> set (selectedGroupIndices s)) (colorGroups s);
          insertAtIndex = fold min (tl (selectedGroupIndices s)) (hd (selectedGroupIndices s))
      in s\<lparr>colorGroups := spliceInsert insertAtIndex newMergedGroup newColorGroups,
           mergeHistory := mergeHistory s @ [colorGroups s],
           selectedGroupIndices := [],
           deletedGroups := [],
           reorderHistory := []\<rparr>)"

definition handleMergeGroups :: "AppState \<Rightarrow> HandlerError + AppState" where
  "handleMergeGroups s =
     (if length (selectedGroupIndices s) < 2 then Inr s
      else if \<not> list_all (\<lambda>i. i < length (colorGroups s)) (selectedGroupIndices s) then Inl TypeError
      else
        let groupsToMerge = map (\<lambda>i. colorGroups s ! i) (selectedGroupIndices s)
        in if isSvgSource s
           then if list_all isSVGGroup groupsToMerge
                then let primaryGroup = hd (sort_key (\<lambda>grp. - int (length (elements grp))) groupsToMerge);
                         allElements = concat (map elements groupsToMerge)
                     in Inr (mergeInto (SVGColorGroup (representativeColor primaryGroup) allElements) s)
                else Inl TypeError
           else if list_all (\<lambda>grp. \<not> isSVGGroup grp) groupsToMerge
                then let primaryGroup = hd (sort_key (\<lambda>grp. - int (totalCount grp)) groupsToMerge);
                         allMemberColors = concat (map memberColors groupsToMerge);
                         total = foldl (\<lambda>sum grp. sum + totalCount grp) 0 groupsToMerge
                     in Inr (mergeInto (RasterColorGroup (representativeColor primaryGroup)
                                          allMemberColors total) s)
                else Inl IllTypedState)"

definition handleUndoMerge :: "AppState \<Rightarrow> AppState" where
  "handleUndoMerge s =
     (if mergeHistory s = [] then s
      else s\<lparr>colorGroups := last (mergeHistory s), mergeHistory := butlast (mergeHistory s)\<rparr>)"

section \<open>App.tsx: the raster preview of ReassembledPreview\<close>

text \<open>
  The loop over \<open>j\<close>: \<open>None\<close> stands for \<open>bestGroupIndex = -1\<close> and
  \<open>minDistance = Infinity\<close>, \<open>Some (bestGroupIndex, minDistance)\<close> for any later state.
\<close>

fun nearestGroup :: "RGBColor \<Rightarrow> ColorGroup list \<Rightarrow> nat \<Rightarrow> (nat \<times> real) option \<Rightarrow> (nat \<times> real) option" where
  "nearestGroup pixelColor [] j best = best"
| "nearestGroup pixelColor (grp # groups) j best =
     (let dist = colorDistance pixelColor (representativeColor grp)
      in if (case best of None \<Rightarrow> True | Some (bestGroupIndex, minDistance) \<Rightarrow> dist < minDistance)
         then nearestGroup pixelColor groups (j + 1) (Some (j, dist))
         else nearestGroup pixelColor groups (j + 1) best)"

text \<open>A store into a \<open>Uint8ClampedArray\<close> clamps an integer to \<open>0..255\<close>.\<close>

definition toUint8Clamp :: "int \<Rightarrow> int" where
  "toUint8Clamp v = max 0 (min 255 v)"

text \<open>What \<open>createImageData\<close> fills the new buffer with.\<close>

definition transparentBlack :: Pixel where
  "transparentBlack = \<lparr>red = 0, green = 0, blue = 0, alpha = 0\<rparr>"

text \<open>
  One iteration of the loop over the pixels: the pixel of \<open>newData\<close> at the position of
  \<open>p\<close>. A skipped pixel keeps its initial value, and so does one whose alpha is set to 0.
\<close>

definition previewPixel :: "real \<Rightarrow> ColorGroup list \<Rightarrow> Pixel \<Rightarrow> Pixel" where
  "previewPixel maxDist groups p =
     (if alpha p < 128 then transparentBlack
      else
        case nearestGroup (rgbOfPixel p) groups 0 None of
          None \<Rightarrow> transparentBlack
        | Some (bestGroupIndex, minDistance) \<Rightarrow>
            if minDistance < maxDist
            then let repColor = representativeColor (groups ! bestGroupIndex)
                 in \<lparr>red = toUint8Clamp (r repColor), green = toUint8Clamp (g repColor),
                      blue = toUint8Clamp (b repColor), alpha = 255\<rparr>
            else transparentBlack)"

text \<open>The buffer \<open>newData\<close> the effect puts on the canvas.\<close>

definition reassembledPreview :: "real \<Rightarrow> ColorGroup list \<Rightarrow> Pixel list \<Rightarrow> Pixel list" where
  "reassembledPreview tolerance groups data = map (previewPixel (tolerance * 2.55) groups) data"

section \<open>App.tsx: transformSvgElements\<close>

text \<open>\<open>width\<close> and \<open>height\<close> are numbers (\<open>None\<close> for \<open>NaN\<close>), \<open>viewBox\<close> is \<open>string | null\<close>.\<close>

record ImageDimensions =
  width :: "real option"
  height :: "real option"
  viewBox :: "string option"

definition isSeparator :: "char \<Rightarrow> bool" where
  "isSeparator c \<longleftrightarrow> c = CHR '' '' \<or> c = CHR '',''"

text \<open>
  \<open>s.split(/[ ,]+/)\<close>: the pieces between the maximal runs of blanks and commas; a run at
  the start or at the end of the string leaves an empty piece there.
\<close>

function splitSeparators :: "string \<Rightarrow> string list" where
  "splitSeparators s =
     (case dropWhile (\<lambda>c. \<not> isSeparator c) s of
        [] \<Rightarrow> [takeWhile (\<lambda>c. \<not> isSeparator c) s]
      | c # rest \<Rightarrow> takeWhile (\<lambda>c. \<not> isSeparator c) s # splitSeparators (dropWhile isSeparator rest))"
  by pat_completeness auto
termination
proof (relation "measure length")
  fix s :: string and c rest
  assume "dropWhile (\<lambda>c. \<not> isSeparator c) s = c # rest"
  then have "length rest < length s"
    using length_dropWhile_le [of "\<lambda>c. \<not> isSeparator c" s] by simp
  moreover have "length (dropWhile isSeparator rest) \<le> length rest"
    by (rule length_dropWhile_le)
  ultimately show "(dropWhile isSeparator rest, s) \<in> measure length" by simp
qed simp

declare splitSeparators.simps [simp del]

definition jsNumberToString :: "Host \<Rightarrow> real option \<Rightarrow> string" where
  "jsNumberToString host v = (case v of None \<Rightarrow> ''NaN'' | Some x \<Rightarrow> numberToString host x)"

text \<open>
  \<open>(dimensions.viewBox || `0 0 ${dimensions.width} ${dimensions.height}`)
  .split(/[ ,]+/).map(parseFloat)\<close>: a missing or empty view box is replaced by the
  rectangle of the width and the height.
\<close>

definition viewBoxParts :: "Host \<Rightarrow> ImageDimensions \<Rightarrow> real option list" where
  "viewBoxParts host dimensions =
     (let fallback = ''0 0 '' @ jsNumberToString host (width dimensions) @ '' '' @
                     jsNumberToString host (height dimensions);
          viewBoxStr = (case viewBox dimensions of
                          None \<Rightarrow> fallback
                        | Some vb \<Rightarrow> if vb = [] then fallback else vb)
      in map (parseFloat host) (splitSeparators viewBoxStr))"

definition isCommandChar :: "char \<Rightarrow> bool" where
  "isCommandChar c \<longleftrightarrow> c \<in> set ''MmLlHhVvCcSsQqTtAaZz''"

text \<open>
  The matches of \<open>/([MmLlHhVvCcSsQqTtAaZz])([^MmLlHhVvCcSsQqTtAaZz]*)/g\<close> in a string: each
  command letter with the text up to the next command letter.
\<close>

function pathMatches :: "string \<Rightarrow> (char \<times> string) list" where
  "pathMatches s =
     (case dropWhile (\<lambda>c. \<not> isCommandChar c) s of
        [] \<Rightarrow> []
      | command # rest \<Rightarrow>
          (command, takeWhile (\<lambda>c. \<not> isCommandChar c) rest) #
            pathMatches (dropWhile (\<lambda>c. \<not> isCommandChar c) rest))"
  by pat_completeness auto
termination
proof (relation "measure length")
  fix s :: string and command rest
  assume "dropWhile (\<lambda>c. \<not> isCommandChar c) s = command # rest"
  then have "length rest < length s"
    using length_dropWhile_le [of "\<lambda>c. \<not> isCommandChar c" s] by simp
  moreover have "length (dropWhile (\<lambda>c. \<not> isCommandChar c) rest) \<le> length rest"
    by (rule length_dropWhile_le)
  ultimately show "(dropWhile (\<lambda>c. \<not> isCommandChar c) rest, s) \<in> measure length" by simp
qed simp

declare pathMatches.simps [simp del]

text \<open>
  The number pattern \<open>/[-+]?[0-9]*\.?[0-9]+(?:[eE][-+]?[0-9]+)?/\<close>, anchored at the start of
  a string. \<open>matchMantissa\<close> is \<open>[0-9]*\.?[0-9]+\<close>: digits, a point and at least one digit
  when that is there, else the digits alone, which must then not be empty.
  \<open>matchExponent\<close> is the optional group, empty when it does not match.
\<close>

definition matchMantissa :: "string \<Rightarrow> string option" where
  "matchMantissa s =
     (let intPart = takeWhile isDigit s;
          fraction = (case dropWhile isDigit s of
                        [] \<Rightarrow> []
                      | c # rest \<Rightarrow> if c = CHR ''.'' then takeWhile isDigit rest else [])
      in if fraction \<noteq> [] then Some (intPart @ ''.'' @ fraction)
         else if intPart \<noteq> [] then Some intPart
         else None)"

definition matchSign :: "string \<Rightarrow> string" where
  "matchSign s = (case s of [] \<Rightarrow> [] | c # rest \<Rightarrow> if c \<in> set ''-+'' then [c] else [])"

definition matchExponent :: "string \<Rightarrow> string" where
  "matchExponent s =
     (case s of
        [] \<Rightarrow> []
      | e # rest \<Rightarrow>
          if e \<in> set ''eE''
          then let sign = matchSign rest;
                   digits = takeWhile isDigit (drop (length sign) rest)
               in if digits = [] then [] else e # sign @ digits
          else [])"

definition matchNumber :: "string \<Rightarrow> string option" where
  "matchNumber s =
     (let sign = matchSign s
      in case matchMantissa (drop (length sign) s) of
           None \<Rightarrow> None
         | Some mantissa \<Rightarrow>
             Some (sign @ mantissa @ matchExponent (drop (length sign + length mantissa) s)))"

lemma matchNumber_nonempty: "matchNumber s = Some tok \<Longrightarrow> tok \<noteq> []"
  by (auto simp: matchNumber_def matchMantissa_def Let_def split: option.splits if_splits)

text \<open>
  \<open>argsStr.trim().match(/.../g) || []\<close>: the matches of the number pattern, left to right.
  A match holds no white space, so the \<open>trim\<close> does not change the result.
\<close>

function numberTokens :: "string \<Rightarrow> string list" where
  "numberTokens s =
     (case s of
        [] \<Rightarrow> []
      | c # rest \<Rightarrow>
          (case matchNumber s of
             Some tok \<Rightarrow> tok # numberTokens (drop (length tok) s)
           | None \<Rightarrow> numberTokens rest))"
  by pat_completeness auto
termination
  by (relation "measure length") (auto dest: matchNumber_nonempty)

declare numberTokens.simps [simp del]

text \<open>
  An entry of \<open>newArgs\<close>: a number, \<open>NaN\<close>, or \<open>undefined\<close> (reading \<open>args\<close> past its end).
  Arithmetic on \<open>NaN\<close> or \<open>undefined\<close> gives \<open>NaN\<close>.
\<close>

datatype JSValue = Number real | NaN | Undefined

definition jsNumber :: "real option \<Rightarrow> JSValue" where
  "jsNumber v = (case v of None \<Rightarrow> NaN | Some a \<Rightarrow> Number a)"

text \<open>\<open>args[i]\<close>\<close>

definition argAt :: "real option list \<Rightarrow> nat \<Rightarrow> JSValue" where
  "argAt args i = (if i < length args then jsNumber (args ! i) else Undefined)"

text \<open>\<open>v * scale\<close>\<close>

definition scaleArg :: "real \<Rightarrow> JSValue \<Rightarrow> JSValue" where
  "scaleArg scale v = (case v of Number a \<Rightarrow> Number (a * scale) | NaN \<Rightarrow> NaN | Undefined \<Rightarrow> NaN)"

text \<open>\<open>(v - origin) * scale + (target - extent * scale) / 2\<close>\<close>

definition moveArg :: "real \<Rightarrow> real \<Rightarrow> real \<Rightarrow> real \<Rightarrow> JSValue \<Rightarrow> JSValue" where
  "moveArg origin extent target scale v =
     (case v of
        Number a \<Rightarrow> Number ((a - origin) * scale + (target - extent * scale) / 2)
      | NaN \<Rightarrow> NaN
      | Undefined \<Rightarrow> NaN)"

text \<open>The \<open>default\<close> branch: \<open>for (let i = 0; i < args.length; i += 2)\<close>, two pushes each round.\<close>

fun transformPairs :: "(JSValue \<Rightarrow> JSValue) \<Rightarrow> (JSValue \<Rightarrow> JSValue) \<Rightarrow> real option list \<Rightarrow> JSValue list" where
  "transformPairs tx ty [] = []"
| "transformPairs tx ty [a0] = [tx (jsNumber a0), ty Undefined]"
| "transformPairs tx ty (a0 # a1 # args) =
     tx (jsNumber a0) # ty (jsNumber a1) # transformPairs tx ty args"

text \<open>The \<open>switch\<close> on the command: \<open>newArgs\<close> from \<open>args\<close>.\<close>

definition transformArgs :: "char \<Rightarrow> real option list \<Rightarrow> real \<Rightarrow> real \<Rightarrow> real \<Rightarrow> real \<Rightarrow> real \<Rightarrow> JSValue list" where
  "transformArgs command args x y w h scale =
     (let isRelative = (command = toLowerChar command);
          tx = (\<lambda>v. if isRelative then scaleArg scale v else moveArg x w 600 scale v);
          ty = (\<lambda>v. if isRelative then scaleArg scale v else moveArg y h 600 scale v)
      in if toLowerChar command = CHR ''a''
         then [scaleArg scale (argAt args 0), scaleArg scale (argAt args 1),
               argAt args 2, argAt args 3, argAt args 4,
               tx (argAt args 5), ty (argAt args 6)]
         else if toLowerChar command = CHR ''h'' then [tx (argAt args 0)]
         else if toLowerChar command = CHR ''v'' then [ty (argAt args 0)]
         else transformPairs tx ty args)"

definition jsValueToString :: "Host \<Rightarrow> JSValue \<Rightarrow> string" where
  "jsValueToString host v =
     (case v of Number a \<Rightarrow> numberToString host a | NaN \<Rightarrow> ''NaN'' | Undefined \<Rightarrow> [])"

text \<open>\<open>strs.join(' ')\<close>\<close>

fun joinSpace :: "string list \<Rightarrow> string" where
  "joinSpace [] = []"
| "joinSpace [s] = s"
| "joinSpace (s # t # strs) = s @ '' '' @ joinSpace (t # strs)"

text \<open>The callback of \<open>d.replace\<close>: the replacement for one match.\<close>

definition replaceCommand :: "Host \<Rightarrow> real \<Rightarrow> real \<Rightarrow> real \<Rightarrow> real \<Rightarrow> real \<Rightarrow> char \<times> string \<Rightarrow> string" where
  "replaceCommand host x y w h scale m =
     (let command = fst m;
          args = map (parseFloat host) (numberTokens (snd m));
          newArgs = transformArgs command args x y w h scale
      in if toLowerChar command = CHR ''z'' then [command]
         else command # joinSpace (map (jsValueToString host) newArgs))"

text \<open>\<open>d.replace(/.../g, callback)\<close>: the text before the first command letter stays.\<close>

definition transformD :: "Host \<Rightarrow> real \<Rightarrow> real \<Rightarrow> real \<Rightarrow> real \<Rightarrow> real \<Rightarrow> string \<Rightarrow> string" where
  "transformD host x y w h scale d =
     takeWhile (\<lambda>c. \<not> isCommandChar c) d @
     concat (map (replaceCommand host x y w h scale) (pathMatches d))"

text \<open>The callback of the final \<open>elements.map\<close>, up to the serialisation of the clone.\<close>

definition normalizeElement :: "Host \<Rightarrow> real \<Rightarrow> real \<Rightarrow> real \<Rightarrow> real \<Rightarrow> real \<Rightarrow> SVGElement \<Rightarrow> SVGElement" where
  "normalizeElement host x y w h scale el =
     removeAttribute ''transform''
       (case getAttribute ''d'' el of
          None \<Rightarrow> el
        | Some d \<Rightarrow> if d = [] then el else setAttribute ''d'' (transformD host x y w h scale d) el)"

text \<open>
  \<open>transformSvgElements\<close>. The pattern \<open>[Some x, Some y, Some w, Some h]\<close> is the test
  \<open>viewBoxParts.length !== 4 || viewBoxParts.some(isNaN)\<close> together with the destructuring
  that follows it.
\<close>

definition transformSvgElements :: "Host \<Rightarrow> SVGElement list \<Rightarrow> ImageDimensions option \<Rightarrow> string" where
  "transformSvgElements host els dimensions =
     (case dimensions of
        None \<Rightarrow> concat (map (outerHTML host) els)
      | Some dims \<Rightarrow>
          (case viewBoxParts host dims of
             [Some x, Some y, Some w, Some h] \<Rightarrow>
               if w \<le> 0 \<or> h \<le> 0 then concat (map (outerHTML host) els)
               else let scale = min (600 / w) (600 / h)
                    in concat (map (\<lambda>el. outerHTML host (normalizeElement host x y w h scale el)) els)
           | _ \<Rightarrow> concat (map (outerHTML host) els)))"

section \<open>A host for the examples\<close>

text \<open>
  The theorems below hold for every host. The examples that evaluate the model need one
  host to run on; this one reads decimal literals as \<open>parseFloat\<close> does (white space, a
  sign, digits with an optional fraction and exponent; \<open>NaN\<close> for anything else), prints
  integers as JavaScript does, serialises a node as its start tag, children and end tag,
  and computes the colour of the names \<open>red\<close> and \<open>white\<close> (black for any other string).
\<close>

definition isWhiteSpace :: "char \<Rightarrow> bool" where
  "isWhiteSpace c \<longleftrightarrow> c \<in> set [CHR '' '', CHR 0x09, CHR 0x0A, CHR 0x0B, CHR 0x0C, CHR 0x0D]"

definition parseDecimal :: "string \<Rightarrow> real option" where
  "parseDecimal str =
     (let s1 = dropWhile isWhiteSpace str;
          sign = matchSign s1;
          s2 = drop (length sign) s1;
          intPart = takeWhile isDigit s2;
          s3 = dropWhile isDigit s2;
          hasPoint = (case s3 of [] \<Rightarrow> False | c # rest \<Rightarrow> c = CHR ''.'');
          fraction = (if hasPoint then takeWhile isDigit (drop 1 s3) else []);
          s4 = (if hasPoint then drop (1 + length fraction) s3 else s3);
          exponent = matchExponent s4;
          expDigits = parseInt10 (filter isDigit exponent);
          mantissa = of_int (parseInt10 intPart) + of_int (parseInt10 fraction) / 10 ^ length fraction;
          magnitude = (if CHR ''-'' \<in> set exponent then mantissa / 10 ^ nat expDigits
                       else mantissa * 10 ^ nat expDigits)
      in if intPart = [] \<and> fraction = [] then None
         else Some (if sign = ''-'' then - magnitude else magnitude))"

function showNat :: "nat \<Rightarrow> string" where
  "showNat n =
     (if n < 10 then [''0123456789'' ! n] else showNat (n div 10) @ [''0123456789'' ! (n mod 10)])"
  by pat_completeness auto
termination
  by (relation "measure id") auto

declare showNat.simps [simp del]

fun fractionDigits :: "nat \<Rightarrow> real \<Rightarrow> string" where
  "fractionDigits 0 f = []"
| "fractionDigits (Suc k) f =
     (if f = 0 then []
      else (''0123456789'' ! nat \<lfloor>f * 10\<rfloor>) # fractionDigits k (f * 10 - of_int \<lfloor>f * 10\<rfloor>))"

definition showNumber :: "real \<Rightarrow> string" where
  "showNumber v =
     (let whole = nat \<lfloor>\<bar>v\<bar>\<rfloor>;
          f = \<bar>v\<bar> - of_nat whole
      in (if v < 0 then ''-'' else []) @ showNat whole @
         (if f = 0 then [] else ''.'' @ fractionDigits 6 f))"

definition serialize :: "SVGElement \<Rightarrow> string" where
  "serialize el =
     ''<'' @ tagName el @
     concat (map (\<lambda>a. '' '' @ fst a @ ''='' @ [CHR 0x22] @ snd a @ [CHR 0x22]) (attributes el)) @
     ''>'' @ innerHTML el @ ''</'' @ tagName el @ ''>''"

definition namedColor :: "string \<Rightarrow> string" where
  "namedColor str =
     (if str = ''red'' then ''rgb(255, 0, 0)''
      else if str = ''white'' then ''rgb(255, 255, 255)''
      else ''rgb(0, 0, 0)'')"

definition exampleHost :: Host where
  "exampleHost = \<lparr>parseFloat = parseDecimal, numberToString = showNumber,
                   outerHTML = serialize, computedColor = namedColor\<rparr>"

section \<open>Measures and example inputs used in the statements\<close>

text \<open>The size of a group: its number of shapes, or its total pixel count.\<close>

definition groupSize :: "ColorGroup \<Rightarrow> nat" where
  "groupSize grp = (case grp of SVGColorGroup _ es \<Rightarrow> length es | RasterColorGroup _ _ n \<Rightarrow> n)"

definition largestGroupSize :: "ColorGroup list \<Rightarrow> nat" where
  "largestGroupSize groups = foldr max (map groupSize groups) 0"

definition firstGroupSize :: "ColorGroup list \<Rightarrow> nat" where
  "firstGroupSize groups = (case groups of [] \<Rightarrow> 0 | grp # _ \<Rightarrow> groupSize grp)"

text \<open>The square of the distance, an integer.\<close>

definition sqDistance :: "RGBColor \<Rightarrow> RGBColor \<Rightarrow> int" where
  "sqDistance c1 c2 =
     (r c1 - r c2) * (r c1 - r c2) + (g c1 - g c2) * (g c1 - g c2) + (b c1 - b c2) * (b c1 - b c2)"

text \<open>A path element of the given red level, and an opaque pixel of the given red level.\<close>

definition redShape :: "int \<Rightarrow> string \<Rightarrow> SVGPathData" where
  "redShape v name =
     \<lparr>color = \<lparr>r = v, g = 0, b = 0\<rparr>,
      element = \<lparr>tagName = ''path'', attributes = [(''id'', name), (''stroke'', ''none'')],
                 innerHTML = []\<rparr>\<rparr>"

definition redPixel :: "int \<Rightarrow> Pixel" where
  "redPixel v = \<lparr>red = v, green = 0, blue = 0, alpha = 255\<rparr>"

text \<open>
  Seven shapes and fifteen pixels with red levels 0, 30, 15, 10 and 20: at tolerance 2
  (distance 5.1) the levels 10 and 20 join the group of 15, at tolerance 4 (distance 10.2)
  they join the groups of 0 and 30, which come first.
\<close>

definition coarseningPaths :: "SVGPathData list" where
  "coarseningPaths =
     [redShape 0 ''s0'', redShape 30 ''s1'', redShape 15 ''s2'', redShape 10 ''s3'',
      redShape 10 ''s4'', redShape 20 ''s5'', redShape 20 ''s6'']"

definition coarseningPixels :: "Pixel list" where
  "coarseningPixels =
     [redPixel 0, redPixel 0, redPixel 0, redPixel 0,
      redPixel 30, redPixel 30, redPixel 30, redPixel 30,
      redPixel 15, redPixel 15, redPixel 15,
      redPixel 10, redPixel 10, redPixel 20, redPixel 20]"

text \<open>An opaque white pixel, and a white rectangle with the style the browser computes for it.\<close>

definition whitePixel :: Pixel where
  "whitePixel = \<lparr>red = 255, green = 255, blue = 255, alpha = 255\<rparr>"

definition whiteRect :: "SVGElement \<times> CSSStyle" where
  "whiteRect =
     (\<lparr>tagName = ''rect'', attributes = [(''fill'', ''#ffffff''), (''stroke'', ''black'')], innerHTML = []\<rparr>,
      \<lparr>fill = ''rgb(255, 255, 255)'', fillOpacity = ''1''\<rparr>)"

text \<open>
  Three vector layers of three, one and two shapes, the state that holds them, the state
  reached from it by deleting the third layer, dragging the first onto the second, undoing
  the delete and selecting the third card, and the state with the second and the first
  card selected.
\<close>

definition shapeNamed :: "string \<Rightarrow> SVGElement" where
  "shapeNamed name = \<lparr>tagName = ''path'', attributes = [(''id'', name), (''stroke'', ''none'')], innerHTML = []\<rparr>"

definition layerA :: ColorGroup where
  "layerA = SVGColorGroup \<lparr>r = 255, g = 0, b = 0\<rparr> [shapeNamed ''a1'', shapeNamed ''a2'', shapeNamed ''a3'']"

definition layerB :: ColorGroup where
  "layerB = SVGColorGroup \<lparr>r = 0, g = 128, b = 0\<rparr> [shapeNamed ''b1'']"

definition layerC :: ColorGroup where
  "layerC = SVGColorGroup \<lparr>r = 0, g = 0, b = 255\<rparr> [shapeNamed ''c1'', shapeNamed ''c2'']"

definition exampleState :: AppState where
  "exampleState = \<lparr>colorGroups = [layerA, layerB, layerC], isSvgSource = True, deletedGroups = [],
     reorderHistory = [], selectedGroupIndices = [], mergeHistory = []\<rparr>"

definition staleSelectionState :: AppState where
  "staleSelectionState = \<lparr>colorGroups = [layerB, layerA, layerC], isSvgSource = True, deletedGroups = [],
     reorderHistory = [ [layerA, layerB] ], selectedGroupIndices = [2], mergeHistory = []\<rparr>"

definition mergeSelectionState :: AppState where
  "mergeSelectionState = exampleState\<lparr>selectedGroupIndices := [1, 0]\<rparr>"

text \<open>
  Two raster groups and four pixels: one near the first group, one equal to the second,
  one far from both, and one below the alpha threshold.
\<close>

definition previewGroups :: "ColorGroup list" where
  "previewGroups =
     [RasterColorGroup \<lparr>r = 10, g = 10, b = 10\<rparr> [\<lparr>r = 10, g = 10, b = 10\<rparr>, \<lparr>r = 12, g = 12, b = 12\<rparr>] 2,
      RasterColorGroup \<lparr>r = 200, g = 0, b = 0\<rparr> [\<lparr>r = 200, g = 0, b = 0\<rparr>] 1]"

definition previewData :: "Pixel list" where
  "previewData =
     [\<lparr>red = 12, green = 12, blue = 12, alpha = 255\<rparr>, \<lparr>red = 200, green = 0, blue = 0, alpha = 255\<rparr>,
      \<lparr>red = 100, green = 100, blue = 100, alpha = 255\<rparr>, \<lparr>red = 190, green = 5, blue = 5, alpha = 100\<rparr>]"

text \<open>
  A path with a \<open>transform\<close> attribute, dimensions without a view box, and dimensions
  whose view box has width 0.
\<close>

definition tiltedPath :: SVGElement where
  "tiltedPath = \<lparr>tagName = ''path'',
     attributes = [(''d'', ''M10 10''), (''transform'', ''scale(2)'')], innerHTML = []\<rparr>"

definition sizeOnly :: ImageDimensions where
  "sizeOnly = \<lparr>width = Some 100, height = Some 50, viewBox = None\<rparr>"

definition flatViewBox :: ImageDimensions where
  "flatViewBox = \<lparr>width = Some 100, height = Some 50, viewBox = Some ''0 0 0 50''\<rparr>"

section \<open>Distances and sampling\<close>

lemma sqDistance_nonneg: "0 \<le> sqDistance c1 c2"
  by (simp add: sqDistance_def)

lemma colorDistance_sqrt: "colorDistance c1 c2 = sqrt (of_int (sqDistance c1 c2))"
  by (simp add: colorDistance_def sqDistance_def Let_def)

text \<open>The test of the clustering loops, without the square root.\<close>

lemma colorDistance_less_iff:
  "colorDistance c1 c2 < m \<longleftrightarrow> 0 < m \<and> of_int (sqDistance c1 c2) < m * m"
proof -
  have nn: "0 \<le> (of_int (sqDistance c1 c2) :: real)"
    using sqDistance_nonneg [of c1 c2] by simp
  show ?thesis
  proof (cases "0 < m")
    case True
    then have "sqrt (of_int (sqDistance c1 c2)) < m \<longleftrightarrow> of_int (sqDistance c1 c2) < m\<^sup>2"
      using nn by (metis real_sqrt_less_iff real_sqrt_abs abs_of_pos)
    then show ?thesis using True by (simp add: colorDistance_sqrt power2_eq_square)
  next
    case False
    have "0 \<le> sqrt (of_int (sqDistance c1 c2))" using nn by simp
    then have "\<not> sqrt (of_int (sqDistance c1 c2)) < m" using False by linarith
    then show ?thesis using False by (simp add: colorDistance_sqrt)
  qed
qed

lemma colorDistance_less_less_iff:
  "colorDistance c1 c2 < colorDistance c3 c4 \<longleftrightarrow> sqDistance c1 c2 < sqDistance c3 c4"
  by (simp add: colorDistance_sqrt)

lemma sampleRate_small: "length data < 1000000 \<Longrightarrow> sampleRate data = 1"
proof -
  assume "length data < 1000000"
  then have "real (length data) < 1000\<^sup>2" by simp
  then have "sqrt (real (length data)) < 1000"
    by (metis real_sqrt_less_iff real_sqrt_abs abs_numeral)
  moreover have "0 \<le> sqrt (real (length data))" by simp
  ultimately have "\<lfloor>sqrt (real (length data)) / 1000\<rfloor> = 0"
    by (simp add: floor_eq_iff)
  then show ?thesis by (simp add: sampleRate_def)
qed

section \<open>Partition property of the vector clustering\<close>

lemma placePath_elements:
  "placePath maxDist path groups = Some groups' \<Longrightarrow>
     mset (concat (map elements groups')) = mset (concat (map elements groups)) + {#element path#}"
  by (induction groups arbitrary: groups') (auto split: if_splits)

lemma addPath_elements:
  "mset (concat (map elements (addPath maxDist groups path))) =
     mset (concat (map elements groups)) + {#element path#}"
  by (cases "placePath maxDist path groups") (simp_all add: addPath_def placePath_elements)

lemma foldl_addPath_elements:
  "mset (concat (map elements (foldl (addPath maxDist) groups paths))) =
     mset (concat (map elements groups)) + mset (map element paths)"
  by (induction paths arbitrary: groups) (simp_all add: addPath_elements)

text \<open>
  C2. For every list of paths and every tolerance the groups produced by the clustering
  loop partition the input: taken together, the element lists of the groups hold every
  input shape exactly as often as the input does, so no shape is dropped and none is in
  two groups.
\<close>

theorem clusterPaths_partition:
  "mset (concat (map elements (clusterPaths tolerance paths))) = mset (map element paths)"
  by (simp add: clusterPaths_def foldl_addPath_elements)

section \<open>Tolerance and the size of the groups\<close>

lemma coarseningPaths_fine:
  "clusterPaths 2 coarseningPaths =
     [SVGColorGroup \<lparr>r = 0, g = 0, b = 0\<rparr> [element (redShape 0 ''s0'')],
      SVGColorGroup \<lparr>r = 30, g = 0, b = 0\<rparr> [element (redShape 30 ''s1'')],
      SVGColorGroup \<lparr>r = 15, g = 0, b = 0\<rparr>
        [element (redShape 15 ''s2''), element (redShape 10 ''s3''), element (redShape 10 ''s4''),
         element (redShape 20 ''s5''), element (redShape 20 ''s6'')]]"
  by (simp add: coarseningPaths_def clusterPaths_def addPath_def redShape_def
      colorDistance_less_iff sqDistance_def del: less_divide_eq_numeral1)

lemma coarseningPaths_coarse:
  "clusterPaths 4 coarseningPaths =
     [SVGColorGroup \<lparr>r = 0, g = 0, b = 0\<rparr>
        [element (redShape 0 ''s0''), element (redShape 10 ''s3''), element (redShape 10 ''s4'')],
      SVGColorGroup \<lparr>r = 30, g = 0, b = 0\<rparr>
        [element (redShape 30 ''s1''), element (redShape 20 ''s5''), element (redShape 20 ''s6'')],
      SVGColorGroup \<lparr>r = 15, g = 0, b = 0\<rparr> [element (redShape 15 ''s2'')]]"
  by (simp add: coarseningPaths_def clusterPaths_def addPath_def redShape_def
      colorDistance_less_iff sqDistance_def del: less_divide_eq_numeral1)

lemma coarseningPixels_sorted:
  "sortedColors (sampleLoop coarseningPixels 0 []) =
     [(\<lparr>r = 0, g = 0, b = 0\<rparr>, 4), (\<lparr>r = 30, g = 0, b = 0\<rparr>, 4), (\<lparr>r = 15, g = 0, b = 0\<rparr>, 3),
      (\<lparr>r = 10, g = 0, b = 0\<rparr>, 2), (\<lparr>r = 20, g = 0, b = 0\<rparr>, 2)]"
  by (simp add: coarseningPixels_def sampleLoop.simps sampleRate_small samplePixel_def rgbOfPixel_def
      sortedColors_def redPixel_def)

lemma coarseningPixels_fine:
  "processRaster coarseningPixels 2 =
     [RasterColorGroup \<lparr>r = 15, g = 0, b = 0\<rparr>
        [\<lparr>r = 15, g = 0, b = 0\<rparr>, \<lparr>r = 10, g = 0, b = 0\<rparr>, \<lparr>r = 20, g = 0, b = 0\<rparr>] 7,
      RasterColorGroup \<lparr>r = 0, g = 0, b = 0\<rparr> [\<lparr>r = 0, g = 0, b = 0\<rparr>] 4,
      RasterColorGroup \<lparr>r = 30, g = 0, b = 0\<rparr> [\<lparr>r = 30, g = 0, b = 0\<rparr>] 4]"
  by (simp add: processRaster_def rasterGroups_def coarseningPixels_sorted clusterColors_def
      addColor_def colorDistance_less_iff sqDistance_def del: less_divide_eq_numeral1)

lemma coarseningPixels_coarse:
  "processRaster coarseningPixels 4 =
     [RasterColorGroup \<lparr>r = 0, g = 0, b = 0\<rparr> [\<lparr>r = 0, g = 0, b = 0\<rparr>, \<lparr>r = 10, g = 0, b = 0\<rparr>] 6,
      RasterColorGroup \<lparr>r = 30, g = 0, b = 0\<rparr> [\<lparr>r = 30, g = 0, b = 0\<rparr>, \<lparr>r = 20, g = 0, b = 0\<rparr>] 6,
      RasterColorGroup \<lparr>r = 15, g = 0, b = 0\<rparr> [\<lparr>r = 15, g = 0, b = 0\<rparr>] 3]"
  by (simp add: processRaster_def rasterGroups_def coarseningPixels_sorted clusterColors_def
      addColor_def colorDistance_less_iff sqDistance_def del: less_divide_eq_numeral1)

text \<open>
  C3, as stated, fails. With the seven shapes of \<open>coarseningPaths\<close> the largest group has
  five shapes at tolerance 2 and three at tolerance 4; with the fifteen pixels of
  \<open>coarseningPixels\<close> the largest group counts seven pixels at tolerance 2 and six at
  tolerance 4.
\<close>

theorem largest_group_shrinks:
  "largestGroupSize (clusterPaths 2 coarseningPaths) = 5 \<and>
   largestGroupSize (clusterPaths 4 coarseningPaths) = 3 \<and>
   largestGroupSize (processRaster coarseningPixels 2) = 7 \<and>
   largestGroupSize (processRaster coarseningPixels 4) = 6"
  by (simp add: coarseningPaths_fine coarseningPaths_coarse coarseningPixels_fine
      coarseningPixels_coarse largestGroupSize_def groupSize_def)

text \<open>
  What first-fit clustering does guarantee is about the first group, the one seeded by the
  first shape of the document or by the most frequent sampled colour: it holds the seed
  and every later element closer than the threshold to the seed.
\<close>

lemma addPath_hd:
  "addPath m (g0 # gs) p \<noteq> [] \<and>
   representativeColor (hd (addPath m (g0 # gs) p)) = representativeColor g0 \<and>
   elements (hd (addPath m (g0 # gs) p)) =
     elements g0 @ (if colorDistance (color p) (representativeColor g0) < m then [element p] else [])"
  by (cases "placePath m p gs") (auto simp: addPath_def)

lemma foldl_addPath_hd:
  "foldl (addPath m) (g0 # gs) ps \<noteq> [] \<and>
   representativeColor (hd (foldl (addPath m) (g0 # gs) ps)) = representativeColor g0 \<and>
   elements (hd (foldl (addPath m) (g0 # gs) ps)) =
     elements g0 @ map element (filter (\<lambda>p. colorDistance (color p) (representativeColor g0) < m) ps)"
proof (induction ps arbitrary: g0 gs)
  case Nil
  show ?case by simp
next
  case (Cons p ps)
  obtain g1 gs1 where step: "addPath m (g0 # gs) p = g1 # gs1"
    using addPath_hd [of m g0 gs p] by (cases "addPath m (g0 # gs) p") auto
  have g1: "representativeColor g1 = representativeColor g0"
      "elements g1 = elements g0 @
         (if colorDistance (color p) (representativeColor g0) < m then [element p] else [])"
    using addPath_hd [of m g0 gs p] step by auto
  show ?case using Cons.IH [of g1 gs1] step g1 by auto
qed

lemma clusterPaths_first:
  "clusterPaths t (p # ps) \<noteq> [] \<and>
   representativeColor (hd (clusterPaths t (p # ps))) = color p \<and>
   elements (hd (clusterPaths t (p # ps))) =
     element p # map element (filter (\<lambda>q. colorDistance (color q) (color p) < t * 2.55) ps)"
  using foldl_addPath_hd [of "t * 2.55" "SVGColorGroup (color p) [element p]" "[]" ps]
  by (simp add: clusterPaths_def addPath_def)

lemma addColor_hd:
  "addColor m (g0 # gs) e \<noteq> [] \<and>
   representativeColor (hd (addColor m (g0 # gs) e)) = representativeColor g0 \<and>
   memberColors (hd (addColor m (g0 # gs) e)) =
     memberColors g0 @ (if colorDistance (fst e) (representativeColor g0) < m then [fst e] else []) \<and>
   totalCount (hd (addColor m (g0 # gs) e)) =
     totalCount g0 + (if colorDistance (fst e) (representativeColor g0) < m then snd e else 0)"
  by (cases "placeColor m e gs") (auto simp: addColor_def)

lemma foldl_addColor_hd:
  "foldl (addColor m) (g0 # gs) es \<noteq> [] \<and>
   representativeColor (hd (foldl (addColor m) (g0 # gs) es)) = representativeColor g0 \<and>
   memberColors (hd (foldl (addColor m) (g0 # gs) es)) =
     memberColors g0 @ map fst (filter (\<lambda>e. colorDistance (fst e) (representativeColor g0) < m) es) \<and>
   totalCount (hd (foldl (addColor m) (g0 # gs) es)) =
     totalCount g0 + sum_list (map snd (filter (\<lambda>e. colorDistance (fst e) (representativeColor g0) < m) es))"
proof (induction es arbitrary: g0 gs)
  case Nil
  show ?case by simp
next
  case (Cons e es)
  obtain g1 gs1 where step: "addColor m (g0 # gs) e = g1 # gs1"
    using addColor_hd [of m g0 gs e] by (cases "addColor m (g0 # gs) e") auto
  have g1: "representativeColor g1 = representativeColor g0"
      "memberColors g1 = memberColors g0 @
         (if colorDistance (fst e) (representativeColor g0) < m then [fst e] else [])"
      "totalCount g1 = totalCount g0 +
         (if colorDistance (fst e) (representativeColor g0) < m then snd e else 0)"
    using addColor_hd [of m g0 gs e] step by auto
  show ?case using Cons.IH [of g1 gs1] step g1 by auto
qed

lemma clusterColors_first:
  "clusterColors t (e # es) \<noteq> [] \<and>
   representativeColor (hd (clusterColors t (e # es))) = fst e \<and>
   memberColors (hd (clusterColors t (e # es))) =
     fst e # map fst (filter (\<lambda>q. colorDistance (fst q) (fst e) < t * 2.55) es) \<and>
   totalCount (hd (clusterColors t (e # es))) =
     snd e + sum_list (map snd (filter (\<lambda>q. colorDistance (fst q) (fst e) < t * 2.55) es))"
  using foldl_addColor_hd [of "t * 2.55" "RasterColorGroup (fst e) [fst e] (snd e)" "[]" es]
  by (simp add: clusterColors_def addColor_def)

lemma length_filter_mono:
  "(\<And>x. P x \<Longrightarrow> Q x) \<Longrightarrow> length (filter P xs) \<le> length (filter Q xs)"
  by (induction xs) auto

lemma sum_filter_mono:
  "(\<And>x. P x \<Longrightarrow> Q x) \<Longrightarrow>
     sum_list (map f (filter P xs)) \<le> (sum_list (map f (filter Q xs)) :: nat)"
  by (induction xs) auto

lemma groupSize_SVG: "isSVGGroup grp \<Longrightarrow> groupSize grp = length (elements grp)"
  by (cases grp) (simp_all add: groupSize_def isSVGGroup_def)

lemma groupSize_Raster: "\<not> isSVGGroup grp \<Longrightarrow> groupSize grp = totalCount grp"
  by (cases grp) (simp_all add: groupSize_def isSVGGroup_def)

lemma isSVGGroup_simps [simp]:
  "isSVGGroup (SVGColorGroup c es)" "\<not> isSVGGroup (RasterColorGroup c ms n)"
  by (simp_all add: isSVGGroup_def)

lemma placePath_isSVG:
  "list_all isSVGGroup groups \<Longrightarrow> placePath m p groups = Some groups' \<Longrightarrow> list_all isSVGGroup groups'"
  by (induction groups arbitrary: groups') (auto split: if_splits)

lemma addPath_isSVG: "list_all isSVGGroup groups \<Longrightarrow> list_all isSVGGroup (addPath m groups p)"
  by (cases "placePath m p groups") (auto simp: addPath_def dest: placePath_isSVG)

lemma foldl_addPath_isSVG:
  "list_all isSVGGroup groups \<Longrightarrow> list_all isSVGGroup (foldl (addPath m) groups ps)"
  by (induction ps arbitrary: groups) (simp_all add: addPath_isSVG)

lemma clusterPaths_isSVG: "list_all isSVGGroup (clusterPaths t paths)"
  by (simp add: clusterPaths_def foldl_addPath_isSVG)

lemma placeColor_isRaster:
  "list_all (\<lambda>x. \<not> isSVGGroup x) groups \<Longrightarrow> placeColor m e groups = Some groups' \<Longrightarrow>
     list_all (\<lambda>x. \<not> isSVGGroup x) groups'"
  by (induction groups arbitrary: groups') (auto split: if_splits)

lemma addColor_isRaster:
  "list_all (\<lambda>x. \<not> isSVGGroup x) groups \<Longrightarrow> list_all (\<lambda>x. \<not> isSVGGroup x) (addColor m groups e)"
  by (cases "placeColor m e groups") (auto simp: addColor_def dest: placeColor_isRaster)

lemma foldl_addColor_isRaster:
  "list_all (\<lambda>x. \<not> isSVGGroup x) groups \<Longrightarrow>
     list_all (\<lambda>x. \<not> isSVGGroup x) (foldl (addColor m) groups es)"
  by (induction es arbitrary: groups) (simp_all add: addColor_isRaster)

lemma clusterColors_isRaster: "list_all (\<lambda>x. \<not> isSVGGroup x) (clusterColors t colors)"
  by (simp add: clusterColors_def foldl_addColor_isRaster)

lemma firstGroupSize_hd: "groups \<noteq> [] \<Longrightarrow> firstGroupSize groups = groupSize (hd groups)"
  by (cases groups) (simp_all add: firstGroupSize_def)

lemma firstGroupSize_clusterPaths_Cons:
  "firstGroupSize (clusterPaths t (p # ps)) =
     Suc (length (filter (\<lambda>q. colorDistance (color q) (color p) < t * 2.55) ps))"
proof -
  have ne: "clusterPaths t (p # ps) \<noteq> []"
    and el: "elements (hd (clusterPaths t (p # ps))) =
       element p # map element (filter (\<lambda>q. colorDistance (color q) (color p) < t * 2.55) ps)"
    using clusterPaths_first [of t p ps] by blast+
  have "isSVGGroup (hd (clusterPaths t (p # ps)))"
    using clusterPaths_isSVG [of t "p # ps"] ne by (cases "clusterPaths t (p # ps)") simp_all
  then have "firstGroupSize (clusterPaths t (p # ps)) = length (elements (hd (clusterPaths t (p # ps))))"
    using ne by (simp add: firstGroupSize_hd groupSize_SVG)
  then show ?thesis by (simp only: el length_Cons length_map)
qed

lemma firstGroupSize_clusterColors_Cons:
  "firstGroupSize (clusterColors t (e # es)) =
     snd e + sum_list (map snd (filter (\<lambda>q. colorDistance (fst q) (fst e) < t * 2.55) es))"
proof -
  have ne: "clusterColors t (e # es) \<noteq> []"
    and el: "totalCount (hd (clusterColors t (e # es))) =
       snd e + sum_list (map snd (filter (\<lambda>q. colorDistance (fst q) (fst e) < t * 2.55) es))"
    using clusterColors_first [of t e es] by blast+
  have "\<not> isSVGGroup (hd (clusterColors t (e # es)))"
    using clusterColors_isRaster [of t "e # es"] ne by (cases "clusterColors t (e # es)") simp_all
  then have "firstGroupSize (clusterColors t (e # es)) = totalCount (hd (clusterColors t (e # es)))"
    using ne by (simp add: firstGroupSize_hd groupSize_Raster)
  then show ?thesis by (simp only: el)
qed

lemma threshold_mono:
  "(t1::real) \<le> t2 \<Longrightarrow> d < t1 * 2.55 \<Longrightarrow> d < t2 * 2.55"
  by (erule order.strict_trans2) simp

lemma firstGroupSize_clusterPaths:
  assumes "t1 \<le> t2"
  shows "firstGroupSize (clusterPaths t1 paths) \<le> firstGroupSize (clusterPaths t2 paths)"
proof (cases paths)
  case Nil
  then show ?thesis by (simp add: clusterPaths_def)
next
  case (Cons p ps)
  have "length (filter (\<lambda>q. colorDistance (color q) (color p) < t1 * 2.55) ps) \<le>
        length (filter (\<lambda>q. colorDistance (color q) (color p) < t2 * 2.55) ps)"
    by (rule length_filter_mono) (rule threshold_mono [OF assms])
  then show ?thesis
    unfolding Cons firstGroupSize_clusterPaths_Cons by (simp only: Suc_le_mono)
qed

lemma firstGroupSize_clusterColors:
  assumes "t1 \<le> t2"
  shows "firstGroupSize (clusterColors t1 colors) \<le> firstGroupSize (clusterColors t2 colors)"
proof (cases colors)
  case Nil
  then show ?thesis by (simp add: clusterColors_def)
next
  case (Cons e es)
  have "sum_list (map snd (filter (\<lambda>q. colorDistance (fst q) (fst e) < t1 * 2.55) es)) \<le>
        sum_list (map snd (filter (\<lambda>q. colorDistance (fst q) (fst e) < t2 * 2.55) es))"
    by (rule sum_filter_mono) (rule threshold_mono [OF assms])
  then show ?thesis
    unfolding Cons firstGroupSize_clusterColors_Cons by (simp only: add_le_cancel_left)
qed

text \<open>
  C3, amended. For every list of paths, every pixel buffer and all tolerances
  \<open>t1 \<le> t2\<close>, the first group that clustering creates (seeded by the first shape, or by
  the most frequent sampled colour) is at least as large under \<open>t2\<close> as under \<open>t1\<close>.
  Nothing of the kind holds for the largest group.
\<close>

theorem first_group_grows:
  assumes "t1 \<le> t2"
  shows "firstGroupSize (clusterPaths t1 paths) \<le> firstGroupSize (clusterPaths t2 paths) \<and>
         firstGroupSize (rasterGroups data t1) \<le> firstGroupSize (rasterGroups data t2)"
  using assms by (simp add: firstGroupSize_clusterPaths firstGroupSize_clusterColors rasterGroups_def)

text \<open>On the example: one shape and four pixels at tolerance 2, three and six at tolerance 4.\<close>

theorem first_group_grows_witness:
  "(2::real) \<le> 4 \<and>
   firstGroupSize (clusterPaths 2 coarseningPaths) = 1 \<and>
   firstGroupSize (clusterPaths 4 coarseningPaths) = 3 \<and>
   firstGroupSize (rasterGroups coarseningPixels 2) = 4 \<and>
   firstGroupSize (rasterGroups coarseningPixels 4) = 6"
  using first_group_grows [of 2 4 coarseningPaths coarseningPixels]
  by (simp add: coarseningPaths_fine coarseningPaths_coarse firstGroupSize_def groupSize_def
      rasterGroups_def coarseningPixels_sorted clusterColors_def
      addColor_def colorDistance_less_iff sqDistance_def del: less_divide_eq_numeral1)


section \<open>Pure white\<close>

text \<open>
  C1, as stated, fails for raster input: \<open>processRaster\<close> takes the colour of a pixel as
  it is. One opaque white pixel gives a group whose representative colour and only member
  colour is (255,255,255).
\<close>

theorem raster_keeps_white:
  "processRaster [whitePixel] 20 =
     [RasterColorGroup \<lparr>r = 255, g = 255, b = 255\<rparr> [\<lparr>r = 255, g = 255, b = 255\<rparr>] 1]"
  by (simp add: whitePixel_def processRaster_def rasterGroups_def sampleLoop.simps sampleRate_small
      samplePixel_def rgbOfPixel_def sortedColors_def clusterColors_def addColor_def)

lemma ingestElement_white:
  "ingestElement host el (Some \<lparr>r = 255, g = 255, b = 255\<rparr>) =
     (if (case parseFloat host (fillOpacity (snd el)) of None \<Rightarrow> 1 | Some v \<Rightarrow> v) > 0
      then [\<lparr>color = \<lparr>r = 247, g = 247, b = 247\<rparr>,
             element = setAttribute ''stroke'' ''none'' (setAttribute ''fill'' ''#F7F7F7'' (fst el))\<rparr>]
      else [])"
  by (simp add: ingestElement_def)

lemma ingestElement_not_white:
  "p \<in> set (ingestElement host el parsed) \<Longrightarrow> color p \<noteq> \<lparr>r = 255, g = 255, b = 255\<rparr>"
  by (auto simp: ingestElement_def Let_def split: option.splits if_splits)

lemma collectPaths_not_white:
  "collectPaths host els = Some paths \<Longrightarrow> p \<in> set paths \<Longrightarrow> color p \<noteq> \<lparr>r = 255, g = 255, b = 255\<rparr>"
proof (induction els arbitrary: paths)
  case Nil
  then show ?case by simp
next
  case (Cons el els)
  from Cons.prems(1) obtain parsed rest where
    parsed: "parseColorString (computedColor host) (fill (snd el)) = Some parsed"
    and rest: "collectPaths host els = Some rest"
    and paths: "paths = ingestElement host el parsed @ rest"
    by (auto split: option.splits)
  from Cons.prems(2) paths consider "p \<in> set (ingestElement host el parsed)" | "p \<in> set rest"
    by auto
  then show ?case
  proof cases
    case 1
    then show ?thesis by (rule ingestElement_not_white)
  next
    case 2
    then show ?thesis using Cons.IH [OF rest] by simp
  qed
qed

lemma placePath_representatives:
  "placePath m p groups = Some groups' \<Longrightarrow>
     map representativeColor groups' = map representativeColor groups"
  by (induction groups arbitrary: groups') (auto split: if_splits)

lemma addPath_representatives:
  "set (map representativeColor (addPath m groups p)) \<subseteq>
     set (map representativeColor groups) \<union> {color p}"
proof (cases "placePath m p groups")
  case None
  then show ?thesis by (auto simp: addPath_def)
next
  case (Some groups')
  have "set (map representativeColor groups') = set (map representativeColor groups)"
    by (simp only: placePath_representatives [OF Some])
  then show ?thesis using Some by (auto simp: addPath_def)
qed

lemma foldl_addPath_representatives:
  "set (map representativeColor (foldl (addPath m) groups ps)) \<subseteq>
     set (map representativeColor groups) \<union> color ` set ps"
proof (induction ps arbitrary: groups)
  case Nil
  show ?case by simp
next
  case (Cons p ps)
  show ?case
    using Cons.IH [of "addPath m groups p"] addPath_representatives [of m groups p] by auto
qed

lemma clusterPaths_representatives:
  "grp \<in> set (clusterPaths t paths) \<Longrightarrow> representativeColor grp \<in> color ` set paths"
  using foldl_addPath_representatives [of "t * 2.55" "[]" paths] by (auto simp: clusterPaths_def)

text \<open>
  \<open>processSVG\<close> returns whenever the browser reports computed colours as \<open>rgb\<close> strings
  with three numbers, as browsers do: the fallback of \<open>parseColorString\<close> then calls
  itself once.
\<close>

lemma rgb_string_parses:
  assumes "startsWith s ''rgb''" "3 \<le> length (digitRuns s)"
  shows "\<exists>c. parseColorString cc s = Some (Some c)"
proof -
  from assms(1) obtain rest where s: "s = CHR ''r'' # CHR ''g'' # CHR ''b'' # rest"
    by (cases s rule: list.exhaust; simp add: startsWith_def)
       (metis append_take_drop_id append_Cons append_Nil)
  have "s \<noteq> []" "toLowerCase s \<noteq> ''none''" "\<not> startsWith s ''#''"
    by (simp_all add: s toLowerCase_def toLowerChar_def startsWith_def)
  then show ?thesis
    using assms by (subst parseColorString.simps) simp
qed

lemma parseColorString_returns:
  assumes "\<And>str. startsWith (cc str) ''rgb'' \<and> 3 \<le> length (digitRuns (cc str))"
  shows "\<exists>res. parseColorString cc s = Some res"
proof (cases "s = [] \<or> toLowerCase s = ''none'' \<or> startsWith s ''#'' \<or>
    (startsWith s ''rgb'' \<and> 3 \<le> length (digitRuns s))")
  case True
  then show ?thesis by (subst parseColorString.simps) auto
next
  case False
  then have "parseColorString cc s = parseColorString cc (cc s)"
    by (subst parseColorString.simps) auto
  then show ?thesis using rgb_string_parses [of "cc s" cc] assms by auto
qed

lemma collectPaths_returns:
  assumes "\<And>str. startsWith (computedColor host str) ''rgb'' \<and>
    3 \<le> length (digitRuns (computedColor host str))"
  shows "\<exists>paths. collectPaths host els = Some paths"
proof (induction els)
  case Nil
  show ?case by simp
next
  case (Cons el els)
  obtain res where "parseColorString (computedColor host) (fill (snd el)) = Some res"
    using parseColorString_returns [of "computedColor host" "fill (snd el)"] assms by blast
  then show ?case using Cons.IH by auto
qed

lemma processSVG_returns:
  assumes "\<And>str. startsWith (computedColor host str) ''rgb'' \<and>
    3 \<le> length (digitRuns (computedColor host str))"
  shows "\<exists>groups. processSVG host els tolerance = Some groups"
  using collectPaths_returns [OF assms, of els] by (auto simp: processSVG_def)


text \<open>
  C1, amended to the vector path. Whenever \<open>processSVG\<close> returns groups, no collected
  path and no group has pure white as its colour, and an element whose parsed fill is pure
  white enters with the colour (247,247,247) and the attribute \<open>fill="#F7F7F7"\<close>.
\<close>

theorem processSVG_no_white:
  assumes "processSVG host els tolerance = Some groups"
  shows "(\<exists>paths. collectPaths host els = Some paths \<and> groups = clusterPaths tolerance paths \<and>
           (\<forall>p \<in> set paths. color p \<noteq> \<lparr>r = 255, g = 255, b = 255\<rparr>) \<and>
           (\<forall>grp \<in> set groups. representativeColor grp \<noteq> \<lparr>r = 255, g = 255, b = 255\<rparr>)) \<and>
         (\<forall>el. \<forall>p \<in> set (ingestElement host el (Some \<lparr>r = 255, g = 255, b = 255\<rparr>)).
           color p = \<lparr>r = 247, g = 247, b = 247\<rparr> \<and>
           element p = setAttribute ''stroke'' ''none'' (setAttribute ''fill'' ''#F7F7F7'' (fst el)))"
proof -
  from assms obtain paths where paths: "collectPaths host els = Some paths"
    and groups: "groups = clusterPaths tolerance paths"
    by (auto simp: processSVG_def)
  have nw: "\<forall>p \<in> set paths. color p \<noteq> \<lparr>r = 255, g = 255, b = 255\<rparr>"
    using collectPaths_not_white [OF paths] by blast
  have "\<forall>grp \<in> set groups. representativeColor grp \<noteq> \<lparr>r = 255, g = 255, b = 255\<rparr>"
  proof
    fix grp assume "grp \<in> set groups"
    then obtain p where "p \<in> set paths" "representativeColor grp = color p"
      using clusterPaths_representatives [of grp tolerance paths] groups by auto
    then show "representativeColor grp \<noteq> \<lparr>r = 255, g = 255, b = 255\<rparr>" using nw by simp
  qed
  then have first: "\<exists>paths. collectPaths host els = Some paths \<and> groups = clusterPaths tolerance paths \<and>
           (\<forall>p \<in> set paths. color p \<noteq> \<lparr>r = 255, g = 255, b = 255\<rparr>) \<and>
           (\<forall>grp \<in> set groups. representativeColor grp \<noteq> \<lparr>r = 255, g = 255, b = 255\<rparr>)"
    using paths groups nw by blast
  have second: "\<forall>el. \<forall>p \<in> set (ingestElement host el (Some \<lparr>r = 255, g = 255, b = 255\<rparr>)).
           color p = \<lparr>r = 247, g = 247, b = 247\<rparr> \<and>
           element p = setAttribute ''stroke'' ''none'' (setAttribute ''fill'' ''#F7F7F7'' (fst el))"
    by (auto simp: ingestElement_white split: if_splits)
  from first second show ?thesis by (rule conjI)
qed

lemma digitRuns_rgb_white: "digitRuns ''rgb(255, 255, 255)'' = [''255'', ''255'', ''255'']"
  by (simp add: digitRuns.simps isDigit_def)

lemma parse_rgb_white:
  "parseColorString cc ''rgb(255, 255, 255)'' = Some (Some \<lparr>r = 255, g = 255, b = 255\<rparr>)"
  by (subst parseColorString.simps)
    (simp add: digitRuns_rgb_white toLowerCase_def toLowerChar_def startsWith_def parseInt10_def digitValue_def)

lemma parseDecimal_1: "parseDecimal ''1'' = Some 1"
  by (simp add: parseDecimal_def Let_def isWhiteSpace_def matchSign_def isDigit_def matchExponent_def
      parseInt10_def digitValue_def)

lemma processSVG_whiteRect:
  "processSVG exampleHost [whiteRect] 20 =
     Some [SVGColorGroup \<lparr>r = 247, g = 247, b = 247\<rparr>
       [\<lparr>tagName = ''rect'', attributes = [(''fill'', ''#F7F7F7''), (''stroke'', ''none'')], innerHTML = []\<rparr>]]"
  by (simp add: processSVG_def whiteRect_def exampleHost_def parse_rgb_white ingestElement_def
      parseDecimal_1 setAttribute_def clusterPaths_def addPath_def)

text \<open>A white rectangle enters as one group of colour (247,247,247).\<close>

theorem processSVG_no_white_witness:
  "processSVG exampleHost [whiteRect] 20 =
     Some [SVGColorGroup \<lparr>r = 247, g = 247, b = 247\<rparr>
       [\<lparr>tagName = ''rect'', attributes = [(''fill'', ''#F7F7F7''), (''stroke'', ''none'')], innerHTML = []\<rparr>]] \<and>
   (\<exists>paths. collectPaths exampleHost [whiteRect] = Some paths \<and>
      (\<forall>p \<in> set paths. color p \<noteq> \<lparr>r = 255, g = 255, b = 255\<rparr>))"
  using processSVG_no_white [OF processSVG_whiteRect] processSVG_whiteRect by blast


section \<open>Hexadecimal colours\<close>

lemma hexDigitValue_table:
  "map hexDigitValue ''0123456789abcdefABCDEF'' =
     [0, 1, 2, 3, 4, 5, 6, 7, 8, 9, 10, 11, 12, 13, 14, 15, 10, 11, 12, 13, 14, 15]"
  by (simp add: hexDigitValue_def isDigit_def)

lemma hexToRgb_six:
  assumes "length ds = 6" "list_all isHexDigit ds"
  shows "hexToRgb (CHR ''#'' # ds) =
     Some \<lparr>r = 16 * hexDigitValue (ds ! 0) + hexDigitValue (ds ! 1),
           g = 16 * hexDigitValue (ds ! 2) + hexDigitValue (ds ! 3),
           b = 16 * hexDigitValue (ds ! 4) + hexDigitValue (ds ! 5)\<rparr>"
proof -
  from assms(1) obtain d0 d1 d2 d3 d4 d5 where ds: "ds = [d0, d1, d2, d3, d4, d5]"
    by (auto simp: eval_nat_numeral length_Suc_conv)
  show ?thesis
    using assms(2) by (simp add: ds hexToRgb_def startsWith_def parseInt16_def)
qed

lemma hexToRgb_other:
  assumes "\<not> (length ds = 6 \<and> list_all isHexDigit ds)"
  shows "hexToRgb (CHR ''#'' # ds) = None"
  using assms by (auto simp: hexToRgb_def startsWith_def)

lemma parseColorString_hash:
  "parseColorString cc (CHR ''#'' # ds) = Some (hexToRgb (CHR ''#'' # ds))"
  by (subst parseColorString.simps) (simp add: toLowerCase_def toLowerChar_def startsWith_def)

lemma parseColorString_none:
  "s = [] \<or> toLowerCase s = ''none'' \<Longrightarrow> parseColorString cc s = Some None"
  by (subst parseColorString.simps) simp

text \<open>
  C5, amended to the six-digit form. For every host, \<open>parseColorString\<close> returns the
  colour of a string \<open>#rrggbb\<close> of six hexadecimal digits, each channel being sixteen
  times its first digit plus its second; it returns \<open>null\<close> for every other string that
  starts with \<open>#\<close>, for the empty string and for \<open>none\<close> in any letter case.
\<close>

theorem parseColorString_hex:
  "(length ds = 6 \<and> list_all isHexDigit ds \<longrightarrow>
      parseColorString cc (CHR ''#'' # ds) =
        Some (Some \<lparr>r = 16 * hexDigitValue (ds ! 0) + hexDigitValue (ds ! 1),
                    g = 16 * hexDigitValue (ds ! 2) + hexDigitValue (ds ! 3),
                    b = 16 * hexDigitValue (ds ! 4) + hexDigitValue (ds ! 5)\<rparr>)) \<and>
   (\<not> (length ds = 6 \<and> list_all isHexDigit ds) \<longrightarrow>
      parseColorString cc (CHR ''#'' # ds) = Some None) \<and>
   (s = [] \<or> toLowerCase s = ''none'' \<longrightarrow> parseColorString cc s = Some None) \<and>
   map hexDigitValue ''0123456789abcdefABCDEF'' =
     [0, 1, 2, 3, 4, 5, 6, 7, 8, 9, 10, 11, 12, 13, 14, 15, 10, 11, 12, 13, 14, 15]"
  by (simp add: parseColorString_hash hexToRgb_six hexToRgb_other parseColorString_none
      hexDigitValue_table del: list.map)

text \<open>
  C5, as stated, fails on the three-digit form: the pattern of \<open>hexToRgb\<close> asks for six
  digits, and \<open>parseColorString\<close> returns its answer for every string starting with \<open>#\<close>.
\<close>

theorem three_digit_hex_rejected:
  "hexToRgb ''#fff'' = None \<and> parseColorString namedColor ''#fff'' = Some None"
  by (simp add: parseColorString_hash hexToRgb_def startsWith_def)

text \<open>The colour \<open>#F7f7f7\<close>, a string of two digits, and \<open>None\<close>.\<close>

theorem parseColorString_hex_witness:
  "parseColorString namedColor ''#F7f7f7'' = Some (Some \<lparr>r = 247, g = 247, b = 247\<rparr>) \<and>
   parseColorString namedColor ''#ff'' = Some None \<and>
   parseColorString namedColor ''None'' = Some None"
  using parseColorString_hex [of "''F7f7f7''" namedColor "''None''"]
    parseColorString_hex [of "''ff''" namedColor "''''"]
  by (simp add: isHexDigit_def hexDigitValue_def isDigit_def toLowerCase_def toLowerChar_def)


section \<open>The layer-edit handlers\<close>

lemma filter_enumerate_Suc:
  "map snd (filter (\<lambda>e. P (fst e)) (enumerate (Suc n) xs)) =
   map snd (filter (\<lambda>e. P (Suc (fst e))) (enumerate n xs))"
  by (induction xs arbitrary: n) simp_all

lemma filterByIndex_Nil [simp]: "filterByIndex keep [] = []"
  by (simp add: filterByIndex_def)

lemma filterByIndex_Cons:
  "filterByIndex keep (x # xs) =
     (if keep 0 then [x] else []) @ filterByIndex (\<lambda>k. keep (Suc k)) xs"
  by (simp add: filterByIndex_def filter_enumerate_Suc)

lemma filterByIndex_nths: "filterByIndex keep xs = nths xs {k. keep k}"
  by (induction xs arbitrary: keep) (simp_all add: filterByIndex_Cons nths_Cons)

lemma nths_remove_one:
  "i < length xs \<Longrightarrow> nths xs {k. k \<noteq> i} = take i xs @ drop (Suc i) xs"
proof (induction xs arbitrary: i)
  case Nil
  then show ?case by simp
next
  case (Cons x xs)
  show ?case
  proof (cases i)
    case 0
    then show ?thesis by (simp add: nths_Cons nths_all)
  next
    case (Suc k)
    then have "k < length xs" using Cons.prems by simp
    then show ?thesis using Cons.IH [of k] Suc by (simp add: nths_Cons)
  qed
qed

lemma spliceInsert_removed:
  "i < length xs \<Longrightarrow> spliceInsert i (xs ! i) (take i xs @ drop (Suc i) xs) = xs"
  by (simp add: spliceInsert_def min_def id_take_nth_drop [symmetric])

text \<open>
  C7. For every state and every index of its group list, \<open>handleDeleteGroup\<close> followed at
  once by \<open>handleUndoDelete\<close> gives back the group list, content and order, and the
  stack of deleted groups.
\<close>

theorem delete_then_undo:
  assumes "i < length (colorGroups s)"
  shows "\<exists>s'. handleDeleteGroup i s = Some s' \<and>
           colorGroups (handleUndoDelete s') = colorGroups s \<and>
           deletedGroups (handleUndoDelete s') = deletedGroups s"
proof -
  let ?rest = "take i (colorGroups s) @ drop (Suc i) (colorGroups s)"
  let ?s' = "s\<lparr>colorGroups := ?rest,
                deletedGroups := deletedGroups s @ [\<lparr>group = colorGroups s ! i, originalIndex = i\<rparr>],
                selectedGroupIndices := []\<rparr>"
  have del: "handleDeleteGroup i s = Some ?s'"
    using assms by (simp add: handleDeleteGroup_def filterByIndex_nths nths_remove_one)
  have len: "length ?rest = length (colorGroups s) - 1"
    using assms by simp
  have "min i (length ?rest) = i" using assms len by simp
  then have "colorGroups (handleUndoDelete ?s') = colorGroups s"
    using spliceInsert_removed [OF assms]
    by (simp add: handleUndoDelete_def Let_def del: length_append length_take length_drop)
  moreover have "deletedGroups (handleUndoDelete ?s') = deletedGroups s"
    by (simp add: handleUndoDelete_def Let_def)
  ultimately show ?thesis using del by blast
qed

text \<open>
  C10. The three undo handlers leave \<open>selectedGroupIndices\<close> as it is, in every state,
  although they replace the group list.
\<close>

theorem undo_keeps_selection:
  "selectedGroupIndices (handleUndoDelete s) = selectedGroupIndices s \<and>
   selectedGroupIndices (handleUndoReorder s) = selectedGroupIndices s \<and>
   selectedGroupIndices (handleUndoMerge s) = selectedGroupIndices s"
  by (simp add: handleUndoDelete_def handleUndoReorder_def handleUndoMerge_def Let_def)


text \<open>Deleting the second of the three layers and undoing.\<close>

theorem delete_then_undo_witness:
  "(1::nat) < length (colorGroups exampleState) \<and>
   (\<exists>s'. handleDeleteGroup 1 exampleState = Some s' \<and>
      colorGroups s' = [layerA, layerC] \<and>
      colorGroups (handleUndoDelete s') = [layerA, layerB, layerC])"
  using delete_then_undo [of 1 exampleState]
  by (auto simp: exampleState_def handleDeleteGroup_def filterByIndex_def)

text \<open>
  A selection that outlives an undo: \<open>staleSelectionState\<close> is reached by the handlers,
  its selected index 2 is the third of three groups; after \<open>handleUndoReorder\<close> the list
  has two groups and the index is still selected, and a merge that includes it throws.
\<close>

lemma staleSelectionState_reached:
  "Option.bind (handleDeleteGroup 2 exampleState) (\<lambda>s1.
     Option.bind (handleDrop (Some 0) 1 s1) (\<lambda>s2.
       Some (handleSelectGroup 2 (handleUndoDelete s2)))) = Some staleSelectionState"
  by (simp add: exampleState_def staleSelectionState_def handleDeleteGroup_def filterByIndex_def
      handleDrop_def spliceInsert_def handleUndoDelete_def handleSelectGroup_def Let_def)

theorem undo_keeps_selection_witness:
  "selectedGroupIndices (handleUndoReorder staleSelectionState) = [2] \<and>
   colorGroups (handleUndoReorder staleSelectionState) = [layerA, layerB] \<and>
   handleMergeGroups (handleSelectGroup 0 (handleUndoReorder staleSelectionState)) = Inl TypeError"
  using undo_keeps_selection [of staleSelectionState]
  by (simp add: staleSelectionState_def handleUndoReorder_def handleSelectGroup_def
      handleMergeGroups_def)

lemma length_nths_without_two:
  assumes "i < length xs" "j < length xs" "i \<noteq> j"
  shows "length (nths xs (- {i, j})) = length xs - 2"
proof -
  have "{k. k < length xs \<and> k \<in> - {i, j}} = {..<length xs} - {i, j}" by auto
  moreover have "card ({..<length xs} - {i, j}) = card {..<length xs} - card {i, j}"
    using assms by (intro card_Diff_subset) auto
  ultimately show ?thesis using assms(3) by (simp add: length_nths)
qed

lemma spliceInsert_at:
  assumes "m \<le> length xs"
  shows "length (spliceInsert m x xs) = Suc (length xs)"
    and "spliceInsert m x xs ! m = x"
    and "take m (spliceInsert m x xs) @ drop (Suc m) (spliceInsert m x xs) = xs"
  using assms by (simp_all add: spliceInsert_def nth_append min_def)

lemma primary_of_two:
  assumes "length (elements g1) = 3" "length (elements g2) = 1"
  shows "hd (sort_key (\<lambda>grp. - int (length (elements grp))) [g1, g2]) = g1"
    and "hd (sort_key (\<lambda>grp. - int (length (elements grp))) [g2, g1]) = g1"
  using assms by simp_all

text \<open>
  C6. In a vector state whose selection is the two indices \<open>i\<close> and \<open>j\<close>, in either
  order, of a group of three shapes and a group of one shape, \<open>handleMergeGroups\<close> returns
  a state whose list is one shorter, holds at \<open>min i j\<close> a group with the representative
  colour of the three-shape group and the four shapes, and without that position is the
  old list without the positions \<open>i\<close> and \<open>j\<close>; the old list is pushed on the merge
  history and the selection and the two other histories are emptied.
\<close>

theorem merge_three_and_one:
  assumes svg: "isSvgSource s"
    and sel: "selectedGroupIndices s = [i, j] \<or> selectedGroupIndices s = [j, i]"
    and i: "i < length (colorGroups s)" and j: "j < length (colorGroups s)"
    and gi: "colorGroups s ! i = SVGColorGroup ci esi" and three: "length esi = 3"
    and gj: "colorGroups s ! j = SVGColorGroup cj esj" and one: "length esj = 1"
  shows "\<exists>s'. handleMergeGroups s = Inr s' \<and>
           length (colorGroups s') = length (colorGroups s) - 1 \<and>
           representativeColor (colorGroups s' ! min i j) = ci \<and>
           mset (elements (colorGroups s' ! min i j)) = mset esi + mset esj \<and>
           length (elements (colorGroups s' ! min i j)) = 4 \<and>
           take (min i j) (colorGroups s') @ drop (Suc (min i j)) (colorGroups s') =
             nths (colorGroups s) (- {i, j}) \<and>
           mergeHistory s' = mergeHistory s @ [colorGroups s] \<and>
           selectedGroupIndices s' = [] \<and> deletedGroups s' = [] \<and> reorderHistory s' = []"
proof -
  have neq: "i \<noteq> j" using gi gj three one by auto
  let ?rest = "nths (colorGroups s) (- {i, j})"
  have lenrest: "length ?rest = length (colorGroups s) - 2"
    using length_nths_without_two [OF i j neq] .
  have m: "min i j \<le> length ?rest" using i j neq lenrest by (auto simp: min_def)
  have keep: "{k. k \<notin> set (selectedGroupIndices s)} = - {i, j}" using sel by auto
  have at: "fold min (tl (selectedGroupIndices s)) (hd (selectedGroupIndices s)) = min i j"
    using sel by (auto simp: min.commute)
  have into: "colorGroups (mergeInto grp s) = spliceInsert (min i j) grp ?rest"
      "mergeHistory (mergeInto grp s) = mergeHistory s @ [colorGroups s]"
      "selectedGroupIndices (mergeInto grp s) = []"
      "deletedGroups (mergeInto grp s) = []"
      "reorderHistory (mergeInto grp s) = []" for grp
    by (simp_all add: mergeInto_def Let_def filterByIndex_nths keep at)
  obtain es where es: "es = esi @ esj \<or> es = esj @ esi"
    and run: "handleMergeGroups s = Inr (mergeInto (SVGColorGroup ci es) s)"
  proof (cases "selectedGroupIndices s = [i, j]")
    case True
    have "handleMergeGroups s = Inr (mergeInto (SVGColorGroup ci (esi @ esj)) s)"
      using svg i j gi gj three one True by (simp add: handleMergeGroups_def isSVGGroup_def)
    then show ?thesis using that by blast
  next
    case False
    then have rev: "selectedGroupIndices s = [j, i]" using sel by simp
    have "handleMergeGroups s = Inr (mergeInto (SVGColorGroup ci (esj @ esi)) s)"
      using svg i j gi gj three one rev by (simp add: handleMergeGroups_def isSVGGroup_def)
    then show ?thesis using that by blast
  qed
  let ?s' = "mergeInto (SVGColorGroup ci es) s"
  have "length (colorGroups ?s') = length (colorGroups s) - 1"
    using spliceInsert_at(1) [OF m] lenrest i j neq by (simp add: into)
  moreover have "colorGroups ?s' ! min i j = SVGColorGroup ci es"
    using spliceInsert_at(2) [OF m] by (simp add: into)
  moreover have "mset es = mset esi + mset esj" "length es = 4"
    using es three one by auto
  moreover have "take (min i j) (colorGroups ?s') @ drop (Suc (min i j)) (colorGroups ?s') = ?rest"
    using spliceInsert_at(3) [OF m] by (simp add: into)
  ultimately show ?thesis using run into(2-5) by auto
qed

text \<open>Merging the one-shape layer and the three-shape layer, selected in that order.\<close>

theorem merge_three_and_one_witness:
  "isSvgSource mergeSelectionState \<and> selectedGroupIndices mergeSelectionState = [1, 0] \<and>
   colorGroups mergeSelectionState ! 0 = layerA \<and> colorGroups mergeSelectionState ! 1 = layerB \<and>
   (\<exists>s'. handleMergeGroups mergeSelectionState = Inr s' \<and>
      colorGroups s' =
        [SVGColorGroup \<lparr>r = 255, g = 0, b = 0\<rparr>
           [shapeNamed ''b1'', shapeNamed ''a1'', shapeNamed ''a2'', shapeNamed ''a3''], layerC] \<and>
      representativeColor (colorGroups s' ! min 0 1) = \<lparr>r = 255, g = 0, b = 0\<rparr> \<and>
      length (elements (colorGroups s' ! min 0 1)) = 4)"
  using merge_three_and_one [of mergeSelectionState 0 1 "\<lparr>r = 255, g = 0, b = 0\<rparr>"
      "[shapeNamed ''a1'', shapeNamed ''a2'', shapeNamed ''a3'']" "\<lparr>r = 0, g = 128, b = 0\<rparr>"
      "[shapeNamed ''b1'']"]
  by (auto simp: mergeSelectionState_def exampleState_def layerA_def layerB_def layerC_def
      handleMergeGroups_def isSVGGroup_def mergeInto_def filterByIndex_def spliceInsert_def)


section \<open>The raster preview\<close>

text \<open>
  The loop over the groups ends with the first index whose distance is least: strictly
  less than every earlier distance, at most every distance.
\<close>

lemma nearestGroup_Some:
  "\<exists>k d. nearestGroup p gs j (Some (kb, m)) = Some (k, d) \<and>
     ((k = kb \<and> d = m \<and> (\<forall>i<length gs. m \<le> colorDistance p (representativeColor (gs ! i)))) \<or>
      (\<exists>i<length gs. k = j + i \<and> d = colorDistance p (representativeColor (gs ! i)) \<and> d < m \<and>
         (\<forall>i'<i. d < colorDistance p (representativeColor (gs ! i'))) \<and>
         (\<forall>i'<length gs. d \<le> colorDistance p (representativeColor (gs ! i')))))"
proof (induction gs arbitrary: j kb m)
  case Nil
  show ?case by simp
next
  case (Cons grp gs)
  let ?D = "\<lambda>x. colorDistance p (representativeColor x)"
  show ?case
  proof (cases "?D grp < m")
    case True
    obtain k d where res: "nearestGroup p gs (j + 1) (Some (j, ?D grp)) = Some (k, d)"
      and alt: "(k = j \<and> d = ?D grp \<and> (\<forall>i<length gs. ?D grp \<le> ?D (gs ! i))) \<or>
        (\<exists>i<length gs. k = j + 1 + i \<and> d = ?D (gs ! i) \<and> d < ?D grp \<and>
           (\<forall>i'<i. d < ?D (gs ! i')) \<and> (\<forall>i'<length gs. d \<le> ?D (gs ! i')))"
      using Cons.IH [of "j + 1" j "?D grp"] by blast
    have eq: "nearestGroup p (grp # gs) j (Some (kb, m)) = Some (k, d)"
      using True res by simp
    from alt have "\<exists>i<length (grp # gs). k = j + i \<and> d = ?D ((grp # gs) ! i) \<and> d < m \<and>
         (\<forall>i'<i. d < ?D ((grp # gs) ! i')) \<and> (\<forall>i'<length (grp # gs). d \<le> ?D ((grp # gs) ! i'))"
    proof
      assume a: "k = j \<and> d = ?D grp \<and> (\<forall>i<length gs. ?D grp \<le> ?D (gs ! i))"
      then have "k = j + 0 \<and> d = ?D ((grp # gs) ! 0) \<and> d < m \<and>
         (\<forall>i'<0. d < ?D ((grp # gs) ! i')) \<and> (\<forall>i'<length (grp # gs). d \<le> ?D ((grp # gs) ! i'))"
        using True by (auto simp: nth_Cons split: nat.splits)
      then show ?thesis by (intro exI [of _ 0]) auto
    next
      assume "\<exists>i<length gs. k = j + 1 + i \<and> d = ?D (gs ! i) \<and> d < ?D grp \<and>
           (\<forall>i'<i. d < ?D (gs ! i')) \<and> (\<forall>i'<length gs. d \<le> ?D (gs ! i'))"
      then obtain i where i: "i < length gs" "k = j + 1 + i" "d = ?D (gs ! i)" "d < ?D grp"
        "\<forall>i'<i. d < ?D (gs ! i')" "\<forall>i'<length gs. d \<le> ?D (gs ! i')" by blast
      have "Suc i < length (grp # gs) \<and> k = j + Suc i \<and> d = ?D ((grp # gs) ! Suc i) \<and> d < m \<and>
         (\<forall>i'<Suc i. d < ?D ((grp # gs) ! i')) \<and> (\<forall>i'<length (grp # gs). d \<le> ?D ((grp # gs) ! i'))"
        using i True by (auto simp: nth_Cons split: nat.splits)
      then show ?thesis by blast
    qed
    then show ?thesis using eq by blast
  next
    case False
    obtain k d where res: "nearestGroup p gs (j + 1) (Some (kb, m)) = Some (k, d)"
      and alt: "(k = kb \<and> d = m \<and> (\<forall>i<length gs. m \<le> ?D (gs ! i))) \<or>
        (\<exists>i<length gs. k = j + 1 + i \<and> d = ?D (gs ! i) \<and> d < m \<and>
           (\<forall>i'<i. d < ?D (gs ! i')) \<and> (\<forall>i'<length gs. d \<le> ?D (gs ! i')))"
      using Cons.IH [of "j + 1" kb m] by blast
    have eq: "nearestGroup p (grp # gs) j (Some (kb, m)) = Some (k, d)"
      using False res by simp
    from alt show ?thesis
    proof
      assume "k = kb \<and> d = m \<and> (\<forall>i<length gs. m \<le> ?D (gs ! i))"
      then have "k = kb \<and> d = m \<and> (\<forall>i<length (grp # gs). m \<le> ?D ((grp # gs) ! i))"
        using False by (auto simp: nth_Cons split: nat.splits)
      then show ?thesis using eq by blast
    next
      assume "\<exists>i<length gs. k = j + 1 + i \<and> d = ?D (gs ! i) \<and> d < m \<and>
           (\<forall>i'<i. d < ?D (gs ! i')) \<and> (\<forall>i'<length gs. d \<le> ?D (gs ! i'))"
      then obtain i where i: "i < length gs" "k = j + 1 + i" "d = ?D (gs ! i)" "d < m"
        "\<forall>i'<i. d < ?D (gs ! i')" "\<forall>i'<length gs. d \<le> ?D (gs ! i')" by blast
      have "Suc i < length (grp # gs) \<and> k = j + Suc i \<and> d = ?D ((grp # gs) ! Suc i) \<and> d < m \<and>
         (\<forall>i'<Suc i. d < ?D ((grp # gs) ! i')) \<and> (\<forall>i'<length (grp # gs). d \<le> ?D ((grp # gs) ! i'))"
        using i False by (auto simp: nth_Cons split: nat.splits)
      then show ?thesis using eq by blast
    qed
  qed
qed

lemma nearestGroup_Nil: "nearestGroup p [] 0 None = None"
  by simp

lemma nearestGroup_first_fit:
  assumes "gs \<noteq> []"
  shows "\<exists>k<length gs. nearestGroup p gs 0 None =
             Some (k, colorDistance p (representativeColor (gs ! k))) \<and>
           (\<forall>i<k. colorDistance p (representativeColor (gs ! k)) <
                     colorDistance p (representativeColor (gs ! i))) \<and>
           (\<forall>i<length gs. colorDistance p (representativeColor (gs ! k)) \<le>
                     colorDistance p (representativeColor (gs ! i)))"
proof -
  let ?D = "\<lambda>x. colorDistance p (representativeColor x)"
  from assms obtain grp rest where gs: "gs = grp # rest" by (cases gs) auto
  obtain k d where res: "nearestGroup p rest 1 (Some (0, ?D grp)) = Some (k, d)"
    and alt: "(k = 0 \<and> d = ?D grp \<and> (\<forall>i<length rest. ?D grp \<le> ?D (rest ! i))) \<or>
        (\<exists>i<length rest. k = 1 + i \<and> d = ?D (rest ! i) \<and> d < ?D grp \<and>
           (\<forall>i'<i. d < ?D (rest ! i')) \<and> (\<forall>i'<length rest. d \<le> ?D (rest ! i')))"
    using nearestGroup_Some [of p rest 1 0 "?D grp"] by blast
  have eq: "nearestGroup p gs 0 None = Some (k, d)" using res gs by simp
  from alt have "k < length gs \<and> d = ?D (gs ! k) \<and> (\<forall>i<k. d < ?D (gs ! i)) \<and>
      (\<forall>i<length gs. d \<le> ?D (gs ! i))"
  proof
    assume "k = 0 \<and> d = ?D grp \<and> (\<forall>i<length rest. ?D grp \<le> ?D (rest ! i))"
    then show ?thesis using gs by (auto simp: nth_Cons split: nat.splits)
  next
    assume "\<exists>i<length rest. k = 1 + i \<and> d = ?D (rest ! i) \<and> d < ?D grp \<and>
           (\<forall>i'<i. d < ?D (rest ! i')) \<and> (\<forall>i'<length rest. d \<le> ?D (rest ! i'))"
    then obtain i where i: "i < length rest" "k = 1 + i" "d = ?D (rest ! i)" "d < ?D grp"
        "\<forall>i'<i. d < ?D (rest ! i')" "\<forall>i'<length rest. d \<le> ?D (rest ! i')" by blast
    then show ?thesis using gs by (auto simp: nth_Cons split: nat.splits)
  qed
  then show ?thesis using eq by blast
qed


lemma sqrt_less_numeral: "sqrt x < numeral n \<longleftrightarrow> x < (numeral n)\<^sup>2"
proof -
  have "sqrt ((numeral n)\<^sup>2) = (numeral n :: real)"
    by (simp only: real_sqrt_abs abs_numeral)
  then have "sqrt x < numeral n \<longleftrightarrow> sqrt x < sqrt ((numeral n)\<^sup>2)"
    by (simp only:)
  also have "\<dots> \<longleftrightarrow> x < (numeral n)\<^sup>2"
    by (rule real_sqrt_less_iff)
  finally show ?thesis .
qed

lemma previewPixel_skipped:
  "alpha p < 128 \<Longrightarrow> previewPixel m gs p = transparentBlack"
  by (simp add: previewPixel_def)

lemma previewPixel_opaque:
  assumes "\<not> alpha p < 128" "gs \<noteq> []"
  shows "\<exists>k<length gs.
      (\<forall>i<k. colorDistance (rgbOfPixel p) (representativeColor (gs ! k)) <
                colorDistance (rgbOfPixel p) (representativeColor (gs ! i))) \<and>
      (\<forall>i<length gs. colorDistance (rgbOfPixel p) (representativeColor (gs ! k)) \<le>
                colorDistance (rgbOfPixel p) (representativeColor (gs ! i))) \<and>
      previewPixel m gs p =
        (if colorDistance (rgbOfPixel p) (representativeColor (gs ! k)) < m
         then \<lparr>red = toUint8Clamp (r (representativeColor (gs ! k))),
               green = toUint8Clamp (g (representativeColor (gs ! k))),
               blue = toUint8Clamp (b (representativeColor (gs ! k))), alpha = 255\<rparr>
         else transparentBlack)"
proof -
  obtain k where k: "k < length gs"
    and res: "nearestGroup (rgbOfPixel p) gs 0 None =
       Some (k, colorDistance (rgbOfPixel p) (representativeColor (gs ! k)))"
    and first: "\<forall>i<k. colorDistance (rgbOfPixel p) (representativeColor (gs ! k)) <
                colorDistance (rgbOfPixel p) (representativeColor (gs ! i))"
    and least: "\<forall>i<length gs. colorDistance (rgbOfPixel p) (representativeColor (gs ! k)) \<le>
                colorDistance (rgbOfPixel p) (representativeColor (gs ! i))"
    using nearestGroup_first_fit [OF assms(2), of "(rgbOfPixel p)"] by blast
  have "previewPixel m gs p =
        (if colorDistance (rgbOfPixel p) (representativeColor (gs ! k)) < m
         then \<lparr>red = toUint8Clamp (r (representativeColor (gs ! k))),
               green = toUint8Clamp (g (representativeColor (gs ! k))),
               blue = toUint8Clamp (b (representativeColor (gs ! k))), alpha = 255\<rparr>
         else transparentBlack)"
    using assms(1) by (simp add: previewPixel_def res Let_def)
  then show ?thesis using k first least by blast
qed

lemma previewPixel_no_groups:
  "previewPixel m [] p = transparentBlack"
  by (simp add: previewPixel_def)

lemma toUint8Clamp_byte: "0 \<le> v \<Longrightarrow> v \<le> 255 \<Longrightarrow> toUint8Clamp v = v"
  by (simp add: toUint8Clamp_def)

lemma previewPixel_best_fit:
  "(alpha p < 128 \<longrightarrow> previewPixel m gs p = transparentBlack) \<and>
   (128 \<le> alpha p \<and>
      (\<forall>grp\<in>set gs. m \<le> colorDistance (rgbOfPixel p) (representativeColor grp)) \<longrightarrow>
      previewPixel m gs p = transparentBlack) \<and>
   (128 \<le> alpha p \<and>
      (\<exists>grp\<in>set gs. colorDistance (rgbOfPixel p) (representativeColor grp) < m) \<longrightarrow>
      (\<exists>k<length gs.
         (\<forall>grp\<in>set gs. colorDistance (rgbOfPixel p) (representativeColor (gs ! k)) \<le>
                          colorDistance (rgbOfPixel p) (representativeColor grp)) \<and>
         (\<forall>i<k. colorDistance (rgbOfPixel p) (representativeColor (gs ! k)) <
                  colorDistance (rgbOfPixel p) (representativeColor (gs ! i))) \<and>
         colorDistance (rgbOfPixel p) (representativeColor (gs ! k)) < m \<and>
         previewPixel m gs p =
           \<lparr>red = toUint8Clamp (r (representativeColor (gs ! k))),
            green = toUint8Clamp (g (representativeColor (gs ! k))),
            blue = toUint8Clamp (b (representativeColor (gs ! k))), alpha = 255\<rparr>))"
proof (intro conjI impI)
  assume "alpha p < 128"
  then show "previewPixel m gs p = transparentBlack"
    by (rule previewPixel_skipped)
next
  let ?D = "\<lambda>x. colorDistance (rgbOfPixel p) (representativeColor x)"
  assume a: "128 \<le> alpha p \<and> (\<forall>grp\<in>set gs. m \<le> ?D grp)"
  show "previewPixel m gs p = transparentBlack"
  proof (cases "gs = []")
    case True
    then show ?thesis by (simp add: previewPixel_no_groups)
  next
    case False
    from a have "\<not> alpha p < 128" by simp
    from previewPixel_opaque [OF this False, of m] obtain k where k: "k < length gs"
      and px: "previewPixel m gs p =
        (if ?D (gs ! k) < m
         then \<lparr>red = toUint8Clamp (r (representativeColor (gs ! k))),
               green = toUint8Clamp (g (representativeColor (gs ! k))),
               blue = toUint8Clamp (b (representativeColor (gs ! k))), alpha = 255\<rparr>
         else transparentBlack)" by blast
    have "m \<le> ?D (gs ! k)" using a k by simp
    then show ?thesis using px by simp
  qed
next
  let ?D = "\<lambda>x. colorDistance (rgbOfPixel p) (representativeColor x)"
  assume a: "128 \<le> alpha p \<and> (\<exists>grp\<in>set gs. ?D grp < m)"
  then have ne: "gs \<noteq> []" by auto
  from a have "\<not> alpha p < 128" by simp
  from previewPixel_opaque [OF this ne, of m] obtain k where k: "k < length gs"
    and first: "\<forall>i<k. ?D (gs ! k) < ?D (gs ! i)"
    and least: "\<forall>i<length gs. ?D (gs ! k) \<le> ?D (gs ! i)"
    and px: "previewPixel m gs p =
        (if ?D (gs ! k) < m
         then \<lparr>red = toUint8Clamp (r (representativeColor (gs ! k))),
               green = toUint8Clamp (g (representativeColor (gs ! k))),
               blue = toUint8Clamp (b (representativeColor (gs ! k))), alpha = 255\<rparr>
         else transparentBlack)" by blast
  have all: "\<forall>grp\<in>set gs. ?D (gs ! k) \<le> ?D grp"
    using least by (auto simp: in_set_conv_nth)
  from a obtain grp where "grp \<in> set gs" "?D grp < m" by blast
  then have "?D (gs ! k) < m" using all by force
  then show "\<exists>k<length gs. (\<forall>grp\<in>set gs. ?D (gs ! k) \<le> ?D grp) \<and>
         (\<forall>i<k. ?D (gs ! k) < ?D (gs ! i)) \<and> ?D (gs ! k) < m \<and>
         previewPixel m gs p =
           \<lparr>red = toUint8Clamp (r (representativeColor (gs ! k))),
            green = toUint8Clamp (g (representativeColor (gs ! k))),
            blue = toUint8Clamp (b (representativeColor (gs ! k))), alpha = 255\<rparr>"
    using k first all px by auto
qed

text \<open>
  C8. For every pixel buffer, group list and tolerance, the preview has one pixel per
  source pixel; a source pixel with alpha below 128 becomes transparent black; an opaque
  pixel whose distance to every group is at least the threshold becomes transparent black;
  an opaque pixel with some group below the threshold gets, with alpha 255, the
  representative colour of the first group whose distance is the least over all groups,
  and that distance is below the threshold. The store clamps each channel to a byte,
  which changes no value between 0 and 255.
\<close>

theorem reassembledPreview_best_fit:
  "length (reassembledPreview tolerance groups data) = length data \<and>
   (\<forall>n<length data.
      (alpha (data ! n) < 128 \<longrightarrow>
         reassembledPreview tolerance groups data ! n = transparentBlack) \<and>
      (128 \<le> alpha (data ! n) \<and>
         (\<forall>grp\<in>set groups. tolerance * 2.55 \<le>
            colorDistance (rgbOfPixel (data ! n))
              (representativeColor grp)) \<longrightarrow>
         reassembledPreview tolerance groups data ! n = transparentBlack) \<and>
      (128 \<le> alpha (data ! n) \<and>
         (\<exists>grp\<in>set groups.
            colorDistance (rgbOfPixel (data ! n))
              (representativeColor grp) < tolerance * 2.55) \<longrightarrow>
         (\<exists>k<length groups.
            (\<forall>grp\<in>set groups.
               colorDistance (rgbOfPixel (data ! n))
                 (representativeColor (groups ! k)) \<le>
               colorDistance (rgbOfPixel (data ! n))
                 (representativeColor grp)) \<and>
            (\<forall>i<k.
               colorDistance (rgbOfPixel (data ! n))
                 (representativeColor (groups ! k)) <
               colorDistance (rgbOfPixel (data ! n))
                 (representativeColor (groups ! i))) \<and>
            colorDistance (rgbOfPixel (data ! n))
              (representativeColor (groups ! k)) < tolerance * 2.55 \<and>
            reassembledPreview tolerance groups data ! n =
              \<lparr>red = toUint8Clamp (r (representativeColor (groups ! k))),
               green = toUint8Clamp (g (representativeColor (groups ! k))),
               blue = toUint8Clamp (b (representativeColor (groups ! k))), alpha = 255\<rparr>))) \<and>
   (\<forall>v. 0 \<le> v \<and> v \<le> 255 \<longrightarrow> toUint8Clamp v = v)"
proof -
  have len: "length (reassembledPreview tolerance groups data) = length data"
    by (simp add: reassembledPreview_def)
  have px: "(\<forall>n<length data.
      (alpha (data ! n) < 128 \<longrightarrow>
         reassembledPreview tolerance groups data ! n = transparentBlack) \<and>
      (128 \<le> alpha (data ! n) \<and>
         (\<forall>grp\<in>set groups. tolerance * 2.55 \<le>
            colorDistance (rgbOfPixel (data ! n))
              (representativeColor grp)) \<longrightarrow>
         reassembledPreview tolerance groups data ! n = transparentBlack) \<and>
      (128 \<le> alpha (data ! n) \<and>
         (\<exists>grp\<in>set groups.
            colorDistance (rgbOfPixel (data ! n))
              (representativeColor grp) < tolerance * 2.55) \<longrightarrow>
         (\<exists>k<length groups.
            (\<forall>grp\<in>set groups.
               colorDistance (rgbOfPixel (data ! n))
                 (representativeColor (groups ! k)) \<le>
               colorDistance (rgbOfPixel (data ! n))
                 (representativeColor grp)) \<and>
            (\<forall>i<k.
               colorDistance (rgbOfPixel (data ! n))
                 (representativeColor (groups ! k)) <
               colorDistance (rgbOfPixel (data ! n))
                 (representativeColor (groups ! i))) \<and>
            colorDistance (rgbOfPixel (data ! n))
              (representativeColor (groups ! k)) < tolerance * 2.55 \<and>
            reassembledPreview tolerance groups data ! n =
              \<lparr>red = toUint8Clamp (r (representativeColor (groups ! k))),
               green = toUint8Clamp (g (representativeColor (groups ! k))),
               blue = toUint8Clamp (b (representativeColor (groups ! k))), alpha = 255\<rparr>)))"
  proof (intro allI impI)
    fix n assume n: "n < length data"
    have nth: "reassembledPreview tolerance groups data ! n =
        previewPixel (tolerance * 2.55) groups (data ! n)"
      using n by (simp add: reassembledPreview_def)
    show "(alpha (data ! n) < 128 \<longrightarrow>
         reassembledPreview tolerance groups data ! n = transparentBlack) \<and>
      (128 \<le> alpha (data ! n) \<and>
         (\<forall>grp\<in>set groups. tolerance * 2.55 \<le>
            colorDistance (rgbOfPixel (data ! n))
              (representativeColor grp)) \<longrightarrow>
         reassembledPreview tolerance groups data ! n = transparentBlack) \<and>
      (128 \<le> alpha (data ! n) \<and>
         (\<exists>grp\<in>set groups.
            colorDistance (rgbOfPixel (data ! n))
              (representativeColor grp) < tolerance * 2.55) \<longrightarrow>
         (\<exists>k<length groups.
            (\<forall>grp\<in>set groups.
               colorDistance (rgbOfPixel (data ! n))
                 (representativeColor (groups ! k)) \<le>
               colorDistance (rgbOfPixel (data ! n))
                 (representativeColor grp)) \<and>
            (\<forall>i<k.
               colorDistance (rgbOfPixel (data ! n))
                 (representativeColor (groups ! k)) <
               colorDistance (rgbOfPixel (data ! n))
                 (representativeColor (groups ! i))) \<and>
            colorDistance (rgbOfPixel (data ! n))
              (representativeColor (groups ! k)) < tolerance * 2.55 \<and>
            reassembledPreview tolerance groups data ! n =
              \<lparr>red = toUint8Clamp (r (representativeColor (groups ! k))),
               green = toUint8Clamp (g (representativeColor (groups ! k))),
               blue = toUint8Clamp (b (representativeColor (groups ! k))), alpha = 255\<rparr>))"
      unfolding nth by (rule previewPixel_best_fit)
  qed
  have clamp: "(\<forall>v. 0 \<le> v \<and> v \<le> 255 \<longrightarrow> toUint8Clamp v = v)"
    by (simp add: toUint8Clamp_byte)
  from len px clamp show ?thesis by (intro conjI)
qed

text \<open>
  On the example at tolerance 20 (threshold 51): the first pixel takes the colour of the
  first group, the second that of the second, the third is too far, the fourth is skipped.
\<close>

lemma previewData_result:
  "reassembledPreview 20 previewGroups previewData =
     [\<lparr>red = 10, green = 10, blue = 10, alpha = 255\<rparr>, \<lparr>red = 200, green = 0, blue = 0, alpha = 255\<rparr>,
      transparentBlack, transparentBlack]"
  by (simp add: reassembledPreview_def previewPixel_def rgbOfPixel_def previewGroups_def previewData_def
      toUint8Clamp_def colorDistance_sqrt sqDistance_def sqrt_less_numeral)

theorem reassembledPreview_best_fit_witness:
  "reassembledPreview 20 previewGroups previewData =
     [\<lparr>red = 10, green = 10, blue = 10, alpha = 255\<rparr>, \<lparr>red = 200, green = 0, blue = 0, alpha = 255\<rparr>,
      transparentBlack, transparentBlack] \<and>
   (\<exists>k<length previewGroups.
      reassembledPreview 20 previewGroups previewData ! 0 =
        \<lparr>red = toUint8Clamp (r (representativeColor (previewGroups ! k))),
         green = toUint8Clamp (g (representativeColor (previewGroups ! k))),
         blue = toUint8Clamp (b (representativeColor (previewGroups ! k))), alpha = 255\<rparr>) \<and>
   reassembledPreview 20 previewGroups previewData ! 3 = transparentBlack"
proof -
  note inst = reassembledPreview_best_fit [of 20 previewGroups previewData]
  have zero: "0 < length previewData" and three: "3 < length previewData"
    by (simp_all add: previewData_def)
  have near: "128 \<le> alpha (previewData ! 0) \<and>
      (\<exists>grp\<in>set previewGroups.
         colorDistance (rgbOfPixel (previewData ! 0))
           (representativeColor grp) < 20 * 2.55)"
    by (simp add: previewData_def previewGroups_def rgbOfPixel_def colorDistance_sqrt sqDistance_def
        sqrt_less_numeral)
  have skipped: "alpha (previewData ! 3) < 128"
    by (simp add: previewData_def)
  from inst zero near have "\<exists>k<length previewGroups.
      reassembledPreview 20 previewGroups previewData ! 0 =
        \<lparr>red = toUint8Clamp (r (representativeColor (previewGroups ! k))),
         green = toUint8Clamp (g (representativeColor (previewGroups ! k))),
         blue = toUint8Clamp (b (representativeColor (previewGroups ! k))), alpha = 255\<rparr>"
    by blast
  moreover from inst three skipped
  have "reassembledPreview 20 previewGroups previewData ! 3 = transparentBlack"
    by blast
  ultimately show ?thesis using previewData_result by blast
qed


section \<open>Path normalization\<close>

lemmas lexer_simps = isDigit_def isWhiteSpace_def matchSign_def matchExponent_def matchMantissa_def
  matchNumber_def parseInt10_def digitValue_def isSeparator_def isCommandChar_def

lemma showNat_small: "showNat 0 = ''0''" "showNat 6 = ''6''"
  by (simp_all add: showNat.simps)

lemma showNumber_examples:
  "showNumber 0 = ''0''" "showNumber 6 = ''6''" "showNumber 60 = ''60''" "showNumber 100 = ''100''"
  "showNumber 50 = ''50''" "showNumber 210 = ''210''"
  by (simp_all add: showNumber_def showNat.simps Let_def)

lemma parseDecimal_examples:
  "parseDecimal ''0'' = Some 0" "parseDecimal ''1'' = Some 1" "parseDecimal ''2'' = Some 2"
  "parseDecimal ''10'' = Some 10" "parseDecimal ''20'' = Some 20" "parseDecimal ''50'' = Some 50"
  "parseDecimal ''100'' = Some 100"
  by (simp_all add: parseDecimal_def Let_def lexer_simps)

lemma viewBoxParts_sizeOnly:
  "viewBoxParts exampleHost sizeOnly = [Some 0, Some 0, Some 100, Some 50]"
  by (simp add: viewBoxParts_def sizeOnly_def exampleHost_def jsNumberToString_def
      showNumber_examples splitSeparators.simps isSeparator_def parseDecimal_examples)

lemma viewBoxParts_flat:
  "viewBoxParts exampleHost flatViewBox = [Some 0, Some 0, Some 0, Some 50]"
  by (simp add: viewBoxParts_def flatViewBox_def exampleHost_def
      splitSeparators.simps isSeparator_def parseDecimal_examples)

lemma numberTokens_point: "numberTokens ''10 10'' = [''10'', ''10'']"
  by (simp add: numberTokens.simps lexer_simps)

lemma transformD_point: "transformD exampleHost 0 0 100 50 6 ''M10 10'' = ''M60 210''"
  by (simp add: transformD_def pathMatches.simps isCommandChar_def replaceCommand_def
      numberTokens_point exampleHost_def parseDecimal_examples transformArgs_def toLowerChar_def
      jsNumber_def moveArg_def jsValueToString_def showNumber_examples)

text \<open>
  C4, as stated, fails when the view box is missing: the code then takes the rectangle
  \<open>0 0 width height\<close>. With width 100, height 50 and no view box the scale is 6 and the
  vertical margin 150: the point (10,10) of the path moves to (60,210) and the
  \<open>transform\<close> attribute is removed.
\<close>

theorem missing_viewBox_normalized:
  "viewBox sizeOnly = None \<and>
   transformSvgElements exampleHost [tiltedPath] (Some sizeOnly) =
     serialize \<lparr>tagName = ''path'', attributes = [(''d'', ''M60 210'')], innerHTML = []\<rparr> \<and>
   concat (map (outerHTML exampleHost) [tiltedPath]) = serialize tiltedPath \<and>
   serialize \<lparr>tagName = ''path'', attributes = [(''d'', ''M60 210'')], innerHTML = []\<rparr> \<noteq>
     serialize tiltedPath"
  by (simp add: transformSvgElements_def viewBoxParts_sizeOnly normalizeElement_def tiltedPath_def
      getAttribute_def setAttribute_def removeAttribute_def transformD_point)
     (simp add: sizeOnly_def exampleHost_def serialize_def)

text \<open>
  C4, amended. For every host and every list of elements: when the dimensions are
  missing, or when the effective view box (the \<open>viewBox\<close> string if present and not
  empty, else \<open>0 0 width height\<close>) does not split into exactly four parts, or one part
  is not a number, or its width or height is at most 0, the elements are serialised as
  they are.
\<close>

theorem degenerate_viewBox_skipped:
  "transformSvgElements host els None = concat (map (outerHTML host) els) \<and>
   (length (viewBoxParts host dims) \<noteq> 4 \<or> list_ex (\<lambda>v. v = None) (viewBoxParts host dims) \<or>
    (\<exists>x y w h. viewBoxParts host dims = [Some x, Some y, Some w, Some h] \<and> (w \<le> 0 \<or> h \<le> 0))
    \<longrightarrow> transformSvgElements host els (Some dims) = concat (map (outerHTML host) els))"
  by (auto simp: transformSvgElements_def split: list.splits option.splits)

text \<open>A view box of width 0.\<close>

theorem degenerate_viewBox_skipped_witness:
  "viewBoxParts exampleHost flatViewBox = [Some 0, Some 0, Some 0, Some 50] \<and>
   transformSvgElements exampleHost [tiltedPath] (Some flatViewBox) = serialize tiltedPath"
  using degenerate_viewBox_skipped [of exampleHost "[tiltedPath]" flatViewBox]
  by (simp add: viewBoxParts_flat) (simp add: exampleHost_def)

text \<open>In every other case the elements are normalized before they are serialised.\<close>

lemma transformSvgElements_normalizes:
  assumes "viewBoxParts host dims = [Some x, Some y, Some w, Some h]" "0 < w" "0 < h"
  shows "transformSvgElements host els (Some dims) =
     concat (map (\<lambda>el. outerHTML host (normalizeElement host x y w h (min (600 / w) (600 / h)) el)) els)"
  using assms by (simp add: transformSvgElements_def)

text \<open>
  The branch for the arc command writes seven entries of \<open>newArgs\<close> whatever the number
  of arguments, where the \<open>default\<close> branch loops over all of them.
\<close>

lemma numberTokens_arcs:
  "numberTokens ''1 1 0 0 0 10 10 2 2 0 0 0 20 20'' =
     [''1'', ''1'', ''0'', ''0'', ''0'', ''10'', ''10'', ''2'', ''2'', ''0'', ''0'', ''0'', ''20'', ''20'']"
  by (simp add: numberTokens.simps lexer_simps)

lemma numberTokens_origin: "numberTokens ''0 0'' = [''0'', ''0'']"
  by (simp add: numberTokens.simps lexer_simps)

lemma transformArgs_arc_length:
  "toLowerChar command = CHR ''a'' \<Longrightarrow> length (transformArgs command args x y w h scale) = 7"
  by (simp add: transformArgs_def Let_def)

text \<open>
  The first group of an arc command is rewritten as the path grammar asks: radii scaled,
  angle and flags kept, end point moved (absolute) or scaled (relative).
\<close>

lemma transformArgs_arc_first_group:
  "transformArgs (CHR ''A'') (map Some (rx # ry # angle # large # sweep # ex # ey # others)) x y w h scale =
     [Number (rx * scale), Number (ry * scale), Number angle, Number large, Number sweep,
      Number ((ex - x) * scale + (600 - w * scale) / 2),
      Number ((ey - y) * scale + (600 - h * scale) / 2)]"
  "transformArgs (CHR ''a'') (map Some (rx # ry # angle # large # sweep # ex # ey # others)) x y w h scale =
     [Number (rx * scale), Number (ry * scale), Number angle, Number large, Number sweep,
      Number (ex * scale), Number (ey * scale)]"
  by (simp_all add: transformArgs_def toLowerChar_def argAt_def jsNumber_def scaleArg_def moveArg_def)

text \<open>
  C9 fails on an arc command that carries two groups of seven arguments, as the path
  grammar allows: the fourteen numbers are read, and only the first seven are written
  back. With the view box \<open>0 0 100 100\<close> (scale 6, no margin) the path data
  \<open>M0 0A1 1 0 0 0 10 10 2 2 0 0 0 20 20\<close> becomes \<open>M0 0A6 6 0 0 0 60 60\<close>.
\<close>

theorem arc_second_group_dropped:
  "numberTokens ''1 1 0 0 0 10 10 2 2 0 0 0 20 20'' =
     [''1'', ''1'', ''0'', ''0'', ''0'', ''10'', ''10'', ''2'', ''2'', ''0'', ''0'', ''0'', ''20'', ''20''] \<and>
   transformArgs (CHR ''A'')
     (map Some [1, 1, 0, 0, 0, 10, 10, 2, 2, 0, 0, 0, 20, 20]) 0 0 100 100 6 =
     [Number 6, Number 6, Number 0, Number 0, Number 0, Number 60, Number 60] \<and>
   transformD exampleHost 0 0 100 100 6 ''M0 0A1 1 0 0 0 10 10 2 2 0 0 0 20 20'' =
     ''M0 0A6 6 0 0 0 60 60''"
  by (simp add: transformD_def pathMatches.simps isCommandChar_def replaceCommand_def
      numberTokens_arcs numberTokens_origin exampleHost_def parseDecimal_examples transformArgs_def
      toLowerChar_def jsNumber_def argAt_def scaleArg_def moveArg_def jsValueToString_def
      showNumber_examples)

end
